theory Spec2Isabelle
  imports Complex_Main "HOL-Library.Word" "HOL-Library.Log_Nat"
begin

unbundle bit_operations_syntax

section \<open>Python values used by the communication service\<close>

text \<open>
  The service in \<^verbatim>\<open>dcm_app/services/comms_service.py\<close> works on Python ints
  (unbounded, modelled by \<^typ>\<open>int\<close>), Python floats (IEEE 754 binary64), strings and
  \<^verbatim>\<open>bytes\<close> objects (lists of 8-bit words).
\<close>

type_synonym byte = "8 word"

subsection \<open>Floats\<close>

text \<open>
  A Python float is a finite double, an infinity or a NaN.  A finite double is
  represented by the rational number it denotes; the two zeros are identified
  (Python's \<^verbatim>\<open>==\<close> and \<^verbatim>\<open>round\<close> do not tell them apart).
\<close>

datatype pyfloat = Finite rat | PosInf | NegInf | NaN

fun is_finite :: "pyfloat \<Rightarrow> bool" where
  "is_finite (Finite r) = True"
| "is_finite PosInf = False"
| "is_finite NegInf = False"
| "is_finite NaN = False"

text \<open>Rounding a rational to the nearest integer, ties to the even neighbour.\<close>

definition round_half_even :: "rat \<Rightarrow> int" where
  "round_half_even x =
     (let f = \<lfloor>x\<rfloor>; d = x - of_int f
      in if d < 1 / 2 then f
         else if 1 / 2 < d then f + 1
         else if even f then f else f + 1)"

text \<open>The binary exponent of a positive rational: the \<open>e\<close> with \<open>2^e \<le> x < 2^(e+1)\<close>.\<close>

definition floor_log2 :: "rat \<Rightarrow> int" where
  "floor_log2 x =
     (let (p, q) = quotient_of x; d = bitlen p - bitlen q
      in if 2 powi d \<le> x then d else d - 1)"

text \<open>
  Rounding an exact result to binary64, as every IEEE operation does: 53 significant
  bits, exponents from \<open>-1022\<close> (below which the spacing stays \<open>2^-1074\<close>, the
  subnormals) to \<open>1023\<close>, round to nearest with ties to even, and overflow to an
  infinity when the rounded magnitude reaches \<open>2^1024\<close>.
\<close>

definition round_double :: "rat \<Rightarrow> pyfloat" where
  "round_double r =
     (if r = 0 then Finite 0
      else let e = max (floor_log2 \<bar>r\<bar>) (- 1022);
               u = 2 powi (e - 52);
               v = of_int (round_half_even (\<bar>r\<bar> / u)) * u
           in if 2 ^ 1024 \<le> v then (if 0 < r then PosInf else NegInf)
              else Finite (sgn r * v))"

text \<open>The float expression \<^verbatim>\<open>x * 10.0\<close>.\<close>

fun times_10 :: "pyfloat \<Rightarrow> pyfloat" where
  "times_10 (Finite r) = round_double (r * 10)"
| "times_10 PosInf = PosInf"
| "times_10 NegInf = NegInf"
| "times_10 NaN = NaN"

text \<open>
  The expression \<^verbatim>\<open>b / 10.0\<close> for an int \<open>b\<close> that converts to a float exactly
  (every byte does); the divisor is not zero, so no ZeroDivisionError arises.
\<close>

definition div_by_10 :: "int \<Rightarrow> pyfloat" where
  "div_by_10 b = round_double (of_int b / 10)"

text \<open>\<^verbatim>\<open>float(b)\<close> for an int \<open>b\<close> that converts exactly.\<close>

definition float_of_int :: "int \<Rightarrow> pyfloat" where
  "float_of_int b = Finite (of_int b)"

subsection \<open>Exceptions\<close>

datatype error =
    ValueError string
  | OverflowError string
  | RuntimeError string
  | StructError string
  | SerialException string

fun err_str :: "error \<Rightarrow> string" where
  "err_str (ValueError m) = m"
| "err_str (OverflowError m) = m"
| "err_str (RuntimeError m) = m"
| "err_str (StructError m) = m"
| "err_str (SerialException m) = m"

text \<open>
  The builtin \<^verbatim>\<open>round(x)\<close> on a float returns an int, rounding half to even, and
  raises on an infinity or a NaN.  On an int it is the identity, as is \<^verbatim>\<open>int\<close>.
\<close>

fun py_round :: "pyfloat \<Rightarrow> error + int" where
  "py_round (Finite r) = Inr (round_half_even r)"
| "py_round PosInf = Inl (OverflowError ''cannot convert float infinity to integer'')"
| "py_round NegInf = Inl (OverflowError ''cannot convert float infinity to integer'')"
| "py_round NaN = Inl (ValueError ''cannot convert float NaN to integer'')"

text \<open>
  Sequencing: an exception raised by the first computation is the outcome; otherwise
  the rest runs on its value.
\<close>

definition raising :: "error + 'a \<Rightarrow> ('a \<Rightarrow> error + 'b) \<Rightarrow> error + 'b" where
  "raising r f = (case r of Inl e \<Rightarrow> Inl e | Inr v \<Rightarrow> f v)"

text \<open>\<^verbatim>\<open>d.get(k, default)\<close> on a dictionary.\<close>

definition dict_get :: "('k \<rightharpoonup> 'v) \<Rightarrow> 'k \<Rightarrow> 'v \<Rightarrow> 'v" where
  "dict_get d k dflt = (case d k of None \<Rightarrow> dflt | Some v \<Rightarrow> v)"

text \<open>
  \<^verbatim>\<open>struct.pack(fmt, value)\<close> for the one format the service uses, \<^verbatim>\<open>'B'\<close>:
  one unsigned byte, an error outside \<open>0..255\<close>.
\<close>

definition struct_pack :: "char \<Rightarrow> int \<Rightarrow> error + byte list" where
  "struct_pack fmt v =
     (if fmt = CHR ''B'' then
        (if 0 \<le> v \<and> v \<le> 255 then Inr [word_of_int v]
         else Inl (StructError ''ubyte format requires 0 <= number <= 255''))
      else Inl (StructError ''bad char in struct format''))"

section \<open>The parameter record\<close>

text \<open>The dataclass \<^verbatim>\<open>PacemakerSettings\<close> of \<^verbatim>\<open>dcm_app/models/settings.py\<close>.\<close>

record PacemakerSettings =
  owner_username :: string
  mode :: string
  lower_rate_limit :: int
  upper_rate_limit :: int
  maximum_sensor_rate :: int
  atrial_amplitude :: pyfloat
  atrial_pulse_width :: pyfloat
  ventricular_amplitude :: pyfloat
  ventricular_pulse_width :: pyfloat
  atrial_sensitivity :: pyfloat
  ventricular_sensitivity :: pyfloat
  ventricular_refractory_period :: int
  atrial_refractory_period :: int
  pvarp :: int
  fixed_av_delay :: int
  dynamic_av_delay_on :: bool
  min_dynamic_av_delay :: int
  sensed_av_delay_offset :: int
  pvarp_extension :: int
  hysteresis_rate_limit :: int
  rate_smoothing_percent :: int
  atr_mode_on :: bool
  atr_duration :: int
  atr_fallback_time :: int
  ventricular_blanking :: int
  activity_threshold :: string
  reaction_time :: int
  response_factor :: int
  recovery_time :: int

text \<open>
  \<^verbatim>\<open>PacemakerSettings.default(owner_username, mode)\<close>: every other field takes the
  dataclass default.  A decimal literal denotes the double nearest to it.
\<close>

definition default_settings :: "string \<Rightarrow> string \<Rightarrow> PacemakerSettings" where
  "default_settings owner m =
     \<lparr> owner_username = owner,
       mode = m,
       lower_rate_limit = 60,
       upper_rate_limit = 120,
       maximum_sensor_rate = 120,
       atrial_amplitude = round_double (35 / 10),
       atrial_pulse_width = round_double (4 / 10),
       ventricular_amplitude = round_double (35 / 10),
       ventricular_pulse_width = round_double (4 / 10),
       atrial_sensitivity = round_double (75 / 100),
       ventricular_sensitivity = round_double (25 / 10),
       ventricular_refractory_period = 320,
       atrial_refractory_period = 250,
       pvarp = 250,
       fixed_av_delay = 150,
       dynamic_av_delay_on = False,
       min_dynamic_av_delay = 50,
       sensed_av_delay_offset = 0,
       pvarp_extension = 0,
       hysteresis_rate_limit = 0,
       rate_smoothing_percent = 0,
       atr_mode_on = False,
       atr_duration = 20,
       atr_fallback_time = 1,
       ventricular_blanking = 40,
       activity_threshold = ''Med'',
       reaction_time = 30,
       response_factor = 8,
       recovery_time = 5 \<rparr>"

section \<open>Protocol constants\<close>

definition PACKET_LEN :: nat where
  "PACKET_LEN = 15"

definition SYNC_BYTE :: int where
  "SYNC_BYTE = 9"

definition ACTIVITY_THRESH_items :: "(string \<times> int) list" where
  "ACTIVITY_THRESH_items =
     [(''V-Low'', 0), (''Low'', 1), (''Med-Low'', 2), (''Med'', 3),
      (''Med-High'', 4), (''High'', 5), (''V-High'', 6)]"

definition MODE_items :: "(string \<times> int) list" where
  "MODE_items =
     [(''AOO'', 1), (''VOO'', 2), (''AAI'', 3), (''VVI'', 4), (''AOOR'', 5),
      (''VOOR'', 6), (''AAIR'', 7), (''VVIR'', 8), (''DDD'', 9), (''DDDR'', 10)]"

text \<open>
  A dict literal is the map of its items.  The inverse tables are built by the
  comprehension \<^verbatim>\<open>{v: k for k, v in d.items()}\<close>, where a later item would
  overwrite an earlier one with the same code (there is none here).
\<close>

definition invert_items :: "('a \<times> 'b) list \<Rightarrow> ('b \<rightharpoonup> 'a)" where
  "invert_items kvs = map_of (rev (map (\<lambda>(k, v). (v, k)) kvs))"

definition ACTIVITY_THRESH_MAP :: "string \<rightharpoonup> int" where
  "ACTIVITY_THRESH_MAP = map_of ACTIVITY_THRESH_items"

definition ACTIVITY_THRESH_MAP_INV :: "int \<rightharpoonup> string" where
  "ACTIVITY_THRESH_MAP_INV = invert_items ACTIVITY_THRESH_items"

definition MODE_MAP :: "string \<rightharpoonup> int" where
  "MODE_MAP = map_of MODE_items"

definition MODE_MAP_INV :: "int \<rightharpoonup> string" where
  "MODE_MAP_INV = invert_items MODE_items"

section \<open>Encoding a parameter record into a frame\<close>

text \<open>
  The loop \<^verbatim>\<open>for format_spec, value in zip(format_specifier, values): packet +=
  struct.pack(format_spec, value)\<close>.
\<close>

fun pack_loop :: "(char \<times> int) list \<Rightarrow> byte list \<Rightarrow> error + byte list" where
  "pack_loop [] packet = Inr packet"
| "pack_loop ((format_spec, v) # rest) packet =
     (case struct_pack format_spec v of
        Inl e \<Rightarrow> Inl e
      | Inr bs \<Rightarrow> pack_loop rest (packet @ bs))"

text \<open>
  \<^verbatim>\<open>_encode_settings_to_frame\<close>.  The int fields pass through \<^verbatim>\<open>int\<close> and
  \<^verbatim>\<open>round\<close> unchanged; the four float fields go through \<^verbatim>\<open>round\<close>, which can
  raise, in the order of the source: both amplitudes, then both pulse widths.  The code
  after the first \<^verbatim>\<open>return\<close> is unreachable and is not modelled.
\<close>

definition encode_settings_to_frame :: "PacemakerSettings \<Rightarrow> error + byte list" where
  "encode_settings_to_frame s =
     (let mode_code = dict_get MODE_MAP (mode s) 0;
          lrl = max 0 (min 255 (lower_rate_limit s));
          url = max 0 (min 255 (upper_rate_limit s));
          msr = max 0 (min 255 (maximum_sensor_rate s))
      in raising (py_round (times_10 (atrial_amplitude s))) (\<lambda>aa_r.
         raising (py_round (times_10 (ventricular_amplitude s))) (\<lambda>va_r.
         raising (py_round (atrial_pulse_width s)) (\<lambda>apw_r.
         raising (py_round (ventricular_pulse_width s)) (\<lambda>vpw_r.
         (let aa = max 0 (min 255 aa_r);
              va = max 0 (min 255 va_r);
              apw = max 0 (min 255 apw_r);
              vpw = max 0 (min 255 vpw_r);
              arp = max 0 (min 255 (atrial_refractory_period s));
              vrp = max 0 (min 255 (ventricular_refractory_period s));
              recovery = max 0 (min 255 (recovery_time s));
              reaction = max 0 (min 255 (reaction_time s));
              resp_factor = max 0 (min 255 (response_factor s));
              act_code = max 0 (min 255 (dict_get ACTIVITY_THRESH_MAP (activity_threshold s) 3));
              format_specifier = replicate PACKET_LEN (CHR ''B'');
              values =
                [SYNC_BYTE AND 255, mode_code AND 255, lrl AND 255, url AND 255,
                 aa AND 255, apw AND 255, va AND 255, vpw AND 255, arp AND 255,
                 vrp AND 255, recovery AND 255, reaction AND 255, resp_factor AND 255,
                 act_code AND 255, msr AND 255]
          in pack_loop (zip format_specifier values) []))))))"

section \<open>The service object and its environment\<close>

text \<open>
  The serial port object \<^verbatim>\<open>self._ser\<close> (a \<^verbatim>\<open>serial.Serial\<close>).  The driver is
  outside the repository: \<open>written\<close> and \<open>flushes\<close> record the channel I/O performed
  through the object, and \<open>write_error\<close>, \<open>flush_error\<close> say whether the driver raises
  in \<^verbatim>\<open>write\<close> or \<^verbatim>\<open>flush\<close> (with the text of the exception).
\<close>

record serial_port =
  is_open :: bool
  written :: "byte list list"
  flushes :: nat
  write_error :: "string option"
  flush_error :: "string option"

definition ser_write :: "byte list \<Rightarrow> serial_port \<Rightarrow> error + serial_port" where
  "ser_write payload sp =
     (case write_error sp of
        Some msg \<Rightarrow> Inl (SerialException msg)
      | None \<Rightarrow> Inr (sp\<lparr>written := written sp @ [payload]\<rparr>))"


text \<open>
  One line of \<^verbatim>\<open>uart_log.txt\<close>, without its timestamp: a hex dump written by
  \<^verbatim>\<open>_log_frame(direction, data)\<close>, a text written by \<^verbatim>\<open>_log_text(line)\<close>, or
  the text made of a prefix and the \<^verbatim>\<open>debug_fields\<close> dictionary joined as
  \<^verbatim>\<open>key=value\<close> items.
\<close>

datatype field_value = StrV string | IntV int | FloatV pyfloat

datatype log_line =
    FrameLine string "byte list"
  | TextLine string
  | FieldsLine string "(string \<times> field_value) list"

text \<open>
  The attributes of \<^verbatim>\<open>CommsService\<close> that the parameter protocol uses (the egram
  queue, thread and flag play no part in it and are left out), and the log file:
  \<open>uart_log\<close> is its content and \<open>log_writable\<close> says whether opening it for
  appending succeeds.
\<close>

record comms =
  baudrate :: int
  ser :: "serial_port option"
  port :: "string option"
  is_connected_flag :: bool
  last_sent_settings :: "PacemakerSettings option"
  log_writable :: bool
  uart_log :: "log_line list"

text \<open>
  Both logging helpers append one line and swallow every exception of the file
  operations: when the file cannot be appended to, nothing is recorded and the caller
  goes on.
\<close>

definition append_log :: "log_line \<Rightarrow> comms \<Rightarrow> comms" where
  "append_log l c = (if log_writable c then c\<lparr>uart_log := uart_log c @ [l]\<rparr> else c)"

definition log_frame :: "string \<Rightarrow> byte list \<Rightarrow> comms \<Rightarrow> comms" where
  "log_frame direction data c = append_log (FrameLine direction data) c"

definition log_text :: "string \<Rightarrow> comms \<Rightarrow> comms" where
  "log_text line c = append_log (TextLine line) c"

text \<open>The property \<^verbatim>\<open>is_connected\<close>.\<close>

definition is_connected :: "comms \<Rightarrow> bool" where
  "is_connected c =
     (is_connected_flag c \<and> (case ser c of None \<Rightarrow> False | Some sp \<Rightarrow> is_open sp))"

text \<open>\<^verbatim>\<open>str(self._port)\<close> inside an f-string.\<close>

definition port_str :: "comms \<Rightarrow> string" where
  "port_str c = (case port c of None \<Rightarrow> ''None'' | Some p \<Rightarrow> p)"

text \<open>
  The constructor \<^verbatim>\<open>__init__(baudrate)\<close>: no port, not connected, nothing sent yet.
  The log file \<^verbatim>\<open>uart_log.txt\<close> of the working directory is found as it is.
\<close>

definition new_comms :: "int \<Rightarrow> bool \<Rightarrow> log_line list \<Rightarrow> comms" where
  "new_comms br writable existing =
     \<lparr> baudrate = br,
       ser = None,
       port = None,
       is_connected_flag = False,
       last_sent_settings = None,
       log_writable = writable,
       uart_log = existing \<rparr>"

section \<open>Raw write\<close>

text \<open>
  \<^verbatim>\<open>write_bytes\<close>.  The guard \<^verbatim>\<open>not self.is_connected or self._ser is None\<close> is the
  first two branches.
\<close>

definition write_bytes :: "byte list \<Rightarrow> comms \<Rightarrow> bool \<times> comms" where
  "write_bytes payload c =
     (case ser c of
        None \<Rightarrow> (False, log_frame ''TX-NC'' payload c)
      | Some sp \<Rightarrow>
          if \<not> is_connected c then (False, log_frame ''TX-NC'' payload c)
          else (case ser_write payload sp of
                  Inr sp' \<Rightarrow> (True, log_frame ''TX'' payload (c\<lparr>ser := Some sp'\<rparr>))
                | Inl e \<Rightarrow>
                    (False,
                     log_text (''[WRITE] Error writing to '' @ port_str c @ '': '' @ err_str e)
                       (log_frame ''TX-ERR'' payload c))))"

section \<open>Sending a parameter record\<close>




section \<open>Decoding a frame into a parameter record\<close>

text \<open>The format \<^verbatim>\<open>{n:#02x}\<close>: lower-case hexadecimal with the \<^verbatim>\<open>0x\<close> prefix.\<close>

definition hex_digit :: "nat \<Rightarrow> char" where
  "hex_digit d = ''0123456789abcdef'' ! (d mod 16)"

fun hex_digits :: "nat \<Rightarrow> string" where
  "hex_digits n = (if n < 16 then [hex_digit n] else hex_digits (n div 16) @ [hex_digit n])"

definition format_hex :: "int \<Rightarrow> string" where
  "format_hex n = (if n < 0 then ''-0x'' @ hex_digits (nat (- n)) else ''0x'' @ hex_digits (nat n))"

text \<open>
  \<^verbatim>\<open>_decode_frame_to_settings(mode, frame)\<close>.  Iterating over a \<^verbatim>\<open>bytes\<close> object
  gives ints in \<open>0..255\<close>; after the length check the unpacking into fifteen names
  cannot fail.  The only effect on the service is the warning in the log.
\<close>

definition decode_frame_to_settings ::
    "string \<Rightarrow> byte list \<Rightarrow> comms \<Rightarrow> (error + PacemakerSettings) \<times> comms" where
  "decode_frame_to_settings m frame c =
     (if length frame \<noteq> PACKET_LEN then (Inl (ValueError ''Frame must be 15 bytes.''), c)
      else
        (let b = (\<lambda>i. uint (frame ! i));
             c' = (if b 0 \<noteq> SYNC_BYTE
                   then log_text (''[PARAM] Warning: unexpected sync byte '' @ format_hex (b 0)
                                  @ '', expected '' @ format_hex SYNC_BYTE @ ''.'') c
                   else c);
             decoded_mode = dict_get MODE_MAP_INV (b 1) m;
             lrl = b 2;
             url = b 3;
             aa = div_by_10 (b 4);
             apw = float_of_int (b 5);
             va = div_by_10 (b 6);
             vpw = float_of_int (b 7);
             arp = b 8;
             vrp = b 9;
             recovery = b 10;
             reaction = b 11;
             resp_factor = b 12;
             act_code = b 13;
             act = dict_get ACTIVITY_THRESH_MAP_INV act_code ''Med'';
             msr = b 14;
             s = default_settings ''device'' decoded_mode
         in (Inr (s\<lparr>lower_rate_limit := lrl,
                    upper_rate_limit := url,
                    maximum_sensor_rate := msr,
                    atrial_amplitude := aa,
                    atrial_pulse_width := apw,
                    ventricular_amplitude := va,
                    ventricular_pulse_width := vpw,
                    atrial_refractory_period := arp,
                    ventricular_refractory_period := vrp,
                    recovery_time := recovery,
                    reaction_time := reaction,
                    response_factor := resp_factor,
                    activity_threshold := act\<rparr>), c')))"

text \<open>The fields compared by the verification of the configuration screen, in \<^verbatim>\<open>FIELD_ORDER\<close>.\<close>

definition wire_subset :: "PacemakerSettings \<Rightarrow> (string \<times> field_value) list" where
  "wire_subset s =
     [(''mode'', StrV (mode s)),
      (''lower_rate_limit'', IntV (lower_rate_limit s)),
      (''upper_rate_limit'', IntV (upper_rate_limit s)),
      (''atrial_amplitude'', FloatV (atrial_amplitude s)),
      (''atrial_pulse_width'', FloatV (atrial_pulse_width s)),
      (''ventricular_amplitude'', FloatV (ventricular_amplitude s)),
      (''ventricular_pulse_width'', FloatV (ventricular_pulse_width s)),
      (''atrial_refractory_period'', IntV (atrial_refractory_period s)),
      (''ventricular_refractory_period'', IntV (ventricular_refractory_period s)),
      (''recovery_time'', IntV (recovery_time s)),
      (''reaction_time'', IntV (reaction_time s)),
      (''response_factor'', IntV (response_factor s)),
      (''activity_threshold'', StrV (activity_threshold s)),
      (''maximum_sensor_rate'', IntV (maximum_sensor_rate s))]"

section \<open>Predicates used to state the properties\<close>

text \<open>
  The encoder rounds four floats; it returns exactly when each of them is finite at
  the point where \<^verbatim>\<open>round\<close> is applied: both pulse widths, and both amplitudes
  after the multiplication by \<^verbatim>\<open>10.0\<close> (which can overflow to an infinity).
\<close>

definition encodable :: "PacemakerSettings \<Rightarrow> bool" where
  "encodable s =
     (is_finite (times_10 (atrial_amplitude s)) \<and>
      is_finite (times_10 (ventricular_amplitude s)) \<and>
      is_finite (atrial_pulse_width s) \<and>
      is_finite (ventricular_pulse_width s))"

text \<open>
  The ranges of the transmitted fields: an int field that fits a byte, an amplitude
  that is the float of a multiple of 0.1 V up to 25.5 V (the double \<^verbatim>\<open>k / 10.0\<close>), a
  pulse width that is a whole number of milliseconds up to 255, and a pulse width that
  merely lies between 0 and 255.
\<close>

definition byte_range :: "int \<Rightarrow> bool" where
  "byte_range x = (0 \<le> x \<and> x \<le> 255)"

definition tenth_volts :: "pyfloat \<Rightarrow> bool" where
  "tenth_volts a = (\<exists>k \<in> {0..255}. a = div_by_10 k)"

definition whole_ms :: "pyfloat \<Rightarrow> bool" where
  "whole_ms w = (\<exists>k \<in> {0..255}. w = float_of_int k)"

definition within_byte_range :: "pyfloat \<Rightarrow> bool" where
  "within_byte_range w = (case w of Finite r \<Rightarrow> 0 \<le> r \<and> r \<le> 255 | _ \<Rightarrow> False)"

text \<open>
  All fourteen transmitted fields in range, for a given reading \<open>width_ok\<close> of what a
  pulse width in range is.
\<close>

definition wire_fields_in_range :: "(pyfloat \<Rightarrow> bool) \<Rightarrow> PacemakerSettings \<Rightarrow> bool" where
  "wire_fields_in_range width_ok s =
     (MODE_MAP (mode s) \<noteq> None \<and>
      ACTIVITY_THRESH_MAP (activity_threshold s) \<noteq> None \<and>
      byte_range (lower_rate_limit s) \<and>
      byte_range (upper_rate_limit s) \<and>
      byte_range (maximum_sensor_rate s) \<and>
      byte_range (atrial_refractory_period s) \<and>
      byte_range (ventricular_refractory_period s) \<and>
      byte_range (recovery_time s) \<and>
      byte_range (reaction_time s) \<and>
      byte_range (response_factor s) \<and>
      tenth_volts (atrial_amplitude s) \<and>
      tenth_volts (ventricular_amplitude s) \<and>
      width_ok (atrial_pulse_width s) \<and>
      width_ok (ventricular_pulse_width s))"

text \<open>
  Inputs used to instantiate the properties: an open serial port whose driver may
  fail, the service as a successful \<^verbatim>\<open>connect("COM3")\<close> leaves it, and a record
  whose twelve numeric transmitted fields all hold the same number.
\<close>

definition open_port :: "string option \<Rightarrow> string option \<Rightarrow> serial_port" where
  "open_port werr ferr =
     \<lparr> is_open = True, written = [], flushes = 0, write_error = werr, flush_error = ferr \<rparr>"

definition connected_comms :: "serial_port \<Rightarrow> comms" where
  "connected_comms sp =
     \<lparr> baudrate = 115200,
       ser = Some sp,
       port = Some ''COM3'',
       is_connected_flag = True,
       last_sent_settings = None,
       log_writable = True,
       uart_log = [TextLine ''Connected to COM3 at 115200 baud.''] \<rparr>"

definition all_numeric_fields :: "int \<Rightarrow> PacemakerSettings" where
  "all_numeric_fields v =
     (default_settings ''user'' ''VVI'')
       \<lparr>lower_rate_limit := v,
        upper_rate_limit := v,
        maximum_sensor_rate := v,
        atrial_amplitude := Finite (of_int v),
        atrial_pulse_width := Finite (of_int v),
        ventricular_amplitude := Finite (of_int v),
        ventricular_pulse_width := Finite (of_int v),
        ventricular_refractory_period := v,
        atrial_refractory_period := v,
        recovery_time := v,
        reaction_time := v,
        response_factor := v\<rparr>"

section \<open>Facts about rounding\<close>

lemma round_half_even_of_int: "round_half_even (of_int n) = n"
  by (simp add: round_half_even_def)

lemma round_half_even_error: "\<bar>of_int (round_half_even x) - x\<bar> \<le> 1 / 2"
proof -
  have "of_int \<lfloor>x\<rfloor> \<le> x" and "x < of_int \<lfloor>x\<rfloor> + 1"
    by linarith+
  then show ?thesis
    by (auto simp: round_half_even_def Let_def)
qed

lemma round_half_even_near:
  assumes "\<bar>x - of_int n\<bar> < 1 / 2"
  shows "round_half_even x = n"
proof -
  have "\<bar>(of_int (round_half_even x) :: rat) - of_int n\<bar> < 1"
    using round_half_even_error [of x] assms by linarith
  then have "\<bar>round_half_even x - n\<bar> < 1"
    by (metis of_int_diff of_int_abs of_int_less_1_iff)
  then show ?thesis by linarith
qed

lemma floor_log2_bounds:
  assumes "0 < x"
  shows "2 powi (floor_log2 x) \<le> x" and "x < 2 powi (floor_log2 x + 1)"
proof -
  obtain p q where pq: "quotient_of x = (p, q)"
    by (cases "quotient_of x")
  have q: "0 < q" using pq by (rule quotient_of_denom_pos)
  have x: "x = of_int p / of_int q" using pq by (rule quotient_of_div)
  have p: "0 < p" using assms q x by (simp add: zero_less_divide_iff)
  define d where "d = bitlen p - bitlen q"
  have bp: "1 \<le> bitlen p" and bq: "1 \<le> bitlen q"
    using p q by (simp_all add: bitlen_alt_def)
  have plo: "(2::rat) powi (bitlen p - 1) \<le> of_int p"
  proof -
    have "(2::int) ^ nat (bitlen p - 1) \<le> p" using bitlen_bounds [OF p] by simp
    then have "(of_int ((2::int) ^ nat (bitlen p - 1)) :: rat) \<le> of_int p"
      by (simp only: of_int_le_iff)
    then show ?thesis using bp by (simp add: power_int_nonneg_exp)
  qed
  have phi: "of_int p < (2::rat) powi (bitlen p)"
  proof -
    have "p < (2::int) ^ nat (bitlen p)" using bitlen_bounds [OF p] by simp
    then have "(of_int p :: rat) < of_int ((2::int) ^ nat (bitlen p))"
      by (simp only: of_int_less_iff)
    then show ?thesis using bp by (simp add: power_int_nonneg_exp)
  qed
  have qlo: "(2::rat) powi (bitlen q - 1) \<le> of_int q"
  proof -
    have "(2::int) ^ nat (bitlen q - 1) \<le> q" using bitlen_bounds [OF q] by simp
    then have "(of_int ((2::int) ^ nat (bitlen q - 1)) :: rat) \<le> of_int q"
      by (simp only: of_int_le_iff)
    then show ?thesis using bq by (simp add: power_int_nonneg_exp)
  qed
  have qhi: "of_int q < (2::rat) powi (bitlen q)"
  proof -
    have "q < (2::int) ^ nat (bitlen q)" using bitlen_bounds [OF q] by simp
    then have "(of_int q :: rat) < of_int ((2::int) ^ nat (bitlen q))"
      by (simp only: of_int_less_iff)
    then show ?thesis using bq by (simp add: power_int_nonneg_exp)
  qed
  have qpos: "(0::rat) < of_int q" using q by simp
  have lo: "(2::rat) powi (d - 1) \<le> x"
  proof -
    have "(2::rat) powi (d - 1) * of_int q \<le> 2 powi (d - 1) * 2 powi (bitlen q)"
      using qhi by (intro mult_left_mono) simp_all
    also have "\<dots> = 2 powi (bitlen p - 1)"
      by (simp add: d_def flip: power_int_add)
    also have "\<dots> \<le> of_int p" by (rule plo)
    finally show ?thesis using qpos by (simp add: x pos_le_divide_eq)
  qed
  have hi: "x < (2::rat) powi (d + 1)"
  proof -
    have "of_int p < (2::rat) powi (bitlen p)" by (rule phi)
    also have "\<dots> = 2 powi (d + 1) * 2 powi (bitlen q - 1)"
      by (simp add: d_def flip: power_int_add)
    also have "\<dots> \<le> 2 powi (d + 1) * of_int q"
      using qlo by (intro mult_left_mono) simp_all
    finally show ?thesis using qpos by (simp add: x pos_divide_less_eq)
  qed
  have fl: "floor_log2 x = (if 2 powi d \<le> x then d else d - 1)"
    by (simp add: floor_log2_def pq d_def Let_def)
  show "2 powi (floor_log2 x) \<le> x"
    using lo by (simp add: fl)
  show "x < 2 powi (floor_log2 x + 1)"
    using hi by (auto simp: fl not_le)
qed

lemma floor_log2_unique:
  assumes "2 powi e \<le> x" and "x < 2 powi (e + 1)"
  shows "floor_log2 x = e"
proof -
  have pos: "0 < x"
    using assms(1) zero_less_power_int [of "2::rat" e] by linarith
  have a: "(2::rat) powi (floor_log2 x) < 2 powi (e + 1)"
    using floor_log2_bounds(1) [OF pos] assms(2) by linarith
  have b: "(2::rat) powi e < 2 powi (floor_log2 x + 1)"
    using floor_log2_bounds(2) [OF pos] assms(1) by linarith
  have "floor_log2 x < e + 1"
    using a power_int_increasing [of "e + 1" "floor_log2 x" "2::rat"] by (cases "floor_log2 x < e + 1") auto
  moreover have "e < floor_log2 x + 1"
    using b power_int_increasing [of "floor_log2 x + 1" e "2::rat"] by (cases "e < floor_log2 x + 1") auto
  ultimately show ?thesis by linarith
qed

lemma round_double_exact:
  assumes r: "r = of_int m * 2 powi j"
    and m: "\<bar>m\<bar> < 2 ^ 53"
    and j: "- 1074 \<le> j"
    and big: "\<bar>r\<bar> < 2 ^ 1024"
  shows "round_double r = Finite r"
proof (cases "r = 0")
  case True
  then show ?thesis by (simp add: round_double_def)
next
  case False
  define e where "e = max (floor_log2 \<bar>r\<bar>) (- 1022)"
  define u :: rat where "u = 2 powi (e - 52)"
  have pos: "0 < \<bar>r\<bar>" using False by simp
  have absr: "\<bar>r\<bar> = of_int \<bar>m\<bar> * 2 powi j"
    by (simp add: r abs_mult)
  have "(of_int \<bar>m\<bar> :: rat) < of_int (2 ^ 53)"
    using m by (simp only: of_int_less_iff)
  then have "\<bar>r\<bar> < 2 powi 53 * 2 powi j"
    unfolding absr by (intro mult_strict_right_mono) simp_all
  then have "\<bar>r\<bar> < 2 powi (53 + j)"
    by (simp add: power_int_add)
  with floor_log2_bounds(1) [OF pos] have "(2::rat) powi (floor_log2 \<bar>r\<bar>) < 2 powi (53 + j)"
    by linarith
  then have "floor_log2 \<bar>r\<bar> < 53 + j"
    using power_int_increasing [of "53 + j" "floor_log2 \<bar>r\<bar>" "2::rat"]
    by (cases "floor_log2 \<bar>r\<bar> < 53 + j") auto
  then have ej: "e - 52 \<le> j" using j by (simp add: e_def)
  have upos: "0 < u" by (simp add: u_def)
  have "\<bar>r\<bar> / u = of_int \<bar>m\<bar> * 2 powi (j - (e - 52))"
    by (simp add: absr u_def power_int_diff)
  also have "\<dots> = of_int \<bar>m\<bar> * 2 ^ nat (j - (e - 52))"
    using ej by (simp add: power_int_nonneg_exp)
  also have "\<dots> = of_int (\<bar>m\<bar> * 2 ^ nat (j - (e - 52)))"
    by simp
  finally have "round_half_even (\<bar>r\<bar> / u) = \<bar>m\<bar> * 2 ^ nat (j - (e - 52))"
    and q: "\<bar>r\<bar> / u = of_int (\<bar>m\<bar> * 2 ^ nat (j - (e - 52)))"
    by (simp_all only: round_half_even_of_int)
  then have veq: "of_int (round_half_even (\<bar>r\<bar> / u)) * u = \<bar>r\<bar>"
    using upos by (metis nonzero_eq_divide_eq less_irrefl)
  have "round_double r = Finite (sgn r * \<bar>r\<bar>)"
    using False big
    by (simp add: round_double_def Let_def veq flip: e_def u_def)
  then show ?thesis
    by (simp only: mult_sgn_abs)
qed

lemma round_double_error:
  assumes nz: "r \<noteq> 0"
    and lt: "\<bar>r\<bar> < 2 powi n"
    and lo: "- 1021 \<le> n"
    and hi: "n \<le> 1023"
  shows "\<exists>v. round_double r = Finite v \<and> \<bar>v - r\<bar> \<le> 2 powi (n - 54)"
proof -
  define e where "e = max (floor_log2 \<bar>r\<bar>) (- 1022)"
  define u :: rat where "u = 2 powi (e - 52)"
  define w :: rat where "w = of_int (round_half_even (\<bar>r\<bar> / u)) * u"
  have pos: "0 < \<bar>r\<bar>" using nz by simp
  have "(2::rat) powi (floor_log2 \<bar>r\<bar>) < 2 powi n"
    using floor_log2_bounds(1) [OF pos] lt by linarith
  then have "floor_log2 \<bar>r\<bar> < n"
    using power_int_increasing [of n "floor_log2 \<bar>r\<bar>" "2::rat"]
    by (cases "floor_log2 \<bar>r\<bar> < n") auto
  then have en: "e - 52 \<le> n - 53" using lo by (simp add: e_def)
  have upos: "0 < u" by (simp add: u_def)
  have ule: "u \<le> 2 powi (n - 53)"
    unfolding u_def using en by (intro power_int_increasing) simp_all
  have "\<bar>of_int (round_half_even (\<bar>r\<bar> / u)) - \<bar>r\<bar> / u\<bar> * u \<le> 1 / 2 * u"
    using round_half_even_error [of "\<bar>r\<bar> / u"] upos by (intro mult_right_mono) simp_all
  moreover have "\<bar>of_int (round_half_even (\<bar>r\<bar> / u)) - \<bar>r\<bar> / u\<bar> * u = \<bar>w - \<bar>r\<bar>\<bar>"
  proof -
    have "\<bar>of_int (round_half_even (\<bar>r\<bar> / u)) - \<bar>r\<bar> / u\<bar> * u
        = \<bar>(of_int (round_half_even (\<bar>r\<bar> / u)) - \<bar>r\<bar> / u) * u\<bar>"
      using upos by (simp add: abs_mult)
    also have "(of_int (round_half_even (\<bar>r\<bar> / u)) - \<bar>r\<bar> / u) * u = w - \<bar>r\<bar>"
      using upos by (simp add: w_def left_diff_distrib)
    finally show ?thesis .
  qed
  ultimately have werr: "\<bar>w - \<bar>r\<bar>\<bar> \<le> u / 2" by simp
  have half: "(2::rat) powi (n - 53) / 2 = 2 powi (n - 54)"
  proof -
    have "(2::rat) powi (n - 54 + 1) = 2 powi (n - 54) * 2"
      by (rule power_int_add_1) simp
    then show ?thesis by simp
  qed
  have err: "\<bar>w - \<bar>r\<bar>\<bar> \<le> 2 powi (n - 54)"
    using werr ule half by linarith
  have "(2::rat) powi (n - 54) \<le> 2 powi 969" and "(2::rat) powi n \<le> 2 powi 1023"
    using hi by (intro power_int_increasing; simp)+
  then have "w < 2 powi 969 + 2 powi 1023"
    using err lt by linarith
  also have "\<dots> < (2::rat) ^ 1024" by simp
  finally have fin: "\<not> 2 ^ 1024 \<le> w" by simp
  have rd: "round_double r = Finite (sgn r * w)"
    using nz fin by (simp add: round_double_def Let_def flip: e_def u_def w_def)
  have "\<bar>sgn r * w - r\<bar> = \<bar>sgn r * (w - \<bar>r\<bar>)\<bar>"
    by (simp add: right_diff_distrib mult_sgn_abs)
  also have "\<dots> = \<bar>w - \<bar>r\<bar>\<bar>"
    using nz by (simp add: abs_mult abs_sgn_eq)
  finally show ?thesis using rd err by simp
qed

lemma round_double_of_int:
  assumes "\<bar>n\<bar> < 2 ^ 53"
  shows "round_double (of_int n) = Finite (of_int n)"
proof (rule round_double_exact [where m = n and j = 0])
  show "(of_int n :: rat) = of_int n * 2 powi 0" by simp
  show "\<bar>n\<bar> < 2 ^ 53" by (rule assms)
  show "- 1074 \<le> (0::int)" by simp
  have "\<bar>of_int n :: rat\<bar> = of_int \<bar>n\<bar>" by simp
  also have "\<dots> < of_int (2 ^ 53)" using assms by (simp only: of_int_less_iff)
  also have "\<dots> < (2::rat) ^ 1024" by simp
  finally show "\<bar>of_int n :: rat\<bar> < 2 ^ 1024" .
qed

lemma round_double_numeral [simp]:
  "numeral k < (2::int) ^ 53 \<Longrightarrow> round_double (numeral k) = Finite (numeral k)"
  "numeral k < (2::int) ^ 53 \<Longrightarrow> round_double (- numeral k) = Finite (- numeral k)"
  using round_double_of_int [of "numeral k"] round_double_of_int [of "- numeral k"] by simp_all

lemma round_half_even_numeral [simp]:
  "round_half_even (numeral k) = numeral k"
  "round_half_even (- numeral k) = - numeral k"
  "round_half_even 0 = 0"
  using round_half_even_of_int [of "numeral k"] round_half_even_of_int [of "- numeral k"]
    round_half_even_of_int [of 0] by simp_all

lemma round_double_0 [simp]: "round_double 0 = Finite 0"
  by (simp add: round_double_def)

lemma round_double_3_5: "round_double (7 / 2) = Finite (7 / 2)"
  by (rule round_double_exact [where m = 7 and j = "- 1"]) (simp_all add: power_int_minus)

text \<open>
  Two checks of the model against the doubles that Python shows for the literals
  \<^verbatim>\<open>0.1\<close> and \<^verbatim>\<open>0.4\<close> (\<^verbatim>\<open>(0.1).as_integer_ratio()\<close>).
\<close>

lemma round_double_0_1: "round_double (1 / 10) = Finite (3602879701896397 / 36028797018963968)"
proof -
  have fl: "floor_log2 (1 / 10) = - 4"
    by (rule floor_log2_unique) (simp_all add: power_int_minus)
  have "round_half_even (1 / 10 / 2 powi (- 4 - 52)) = 7205759403792794"
    by (rule round_half_even_near) (simp add: power_int_minus)
  then show ?thesis
    by (simp add: round_double_def fl Let_def power_int_minus)
qed

lemma round_double_0_4_value: "round_double (2 / 5) = Finite (3602879701896397 / 9007199254740992)"
proof -
  have fl: "floor_log2 (2 / 5) = - 2"
    by (rule floor_log2_unique) (simp_all add: power_int_minus)
  have "round_half_even (2 / 5 / 2 powi (- 2 - 52)) = 7205759403792794"
    by (rule round_half_even_near) (simp add: power_int_minus)
  then show ?thesis
    by (simp add: round_double_def fl Let_def power_int_minus)
qed

lemma round_double_0_4:
  obtains v where "round_double (2 / 5) = Finite v" "\<bar>v - 2 / 5\<bar> \<le> 1 / 1000"
proof -
  have "\<exists>v. round_double (2 / 5) = Finite v \<and> \<bar>v - 2 / 5\<bar> \<le> 2 powi (- 1 - 54)"
    by (rule round_double_error) (simp_all add: power_int_minus)
  then obtain v where v: "round_double (2 / 5) = Finite v" "\<bar>v - 2 / 5\<bar> \<le> 2 powi (- 55)"
    by auto
  have "(2::rat) powi (- 55) \<le> 1 / 1000"
    by (simp add: power_int_minus)
  with v(2) have "\<bar>v - 2 / 5\<bar> \<le> 1 / 1000" by linarith
  with v(1) show ?thesis by (rule that)
qed

lemma py_round_0_4: "py_round (round_double (2 / 5)) = Inr 0"
proof -
  obtain v where v: "round_double (2 / 5) = Finite v" "\<bar>v - 2 / 5\<bar> \<le> 1 / 1000"
    by (rule round_double_0_4)
  have "\<bar>v - of_int 0\<bar> < 1 / 2" using v(2) by (simp only: of_int_0)
  then have "round_half_even v = 0" by (rule round_half_even_near)
  then show ?thesis by (simp add: v(1))
qed

lemma py_round_3_5_times_10: "py_round (times_10 (round_double (7 / 2))) = Inr 35"
  by (simp add: round_double_3_5)

section \<open>Facts about the encoder\<close>

lemma and_255_id: "0 \<le> x \<Longrightarrow> x \<le> 255 \<Longrightarrow> x AND 255 = (x::int)"
proof -
  assume "0 \<le> x" "x \<le> 255"
  then have "take_bit 8 x = x" by (simp add: take_bit_int_eq_self)
  then show ?thesis by (simp add: take_bit_eq_mask mask_eq_exp_minus_1)
qed

lemma uint_byte_of_int: "0 \<le> x \<Longrightarrow> x \<le> 255 \<Longrightarrow> uint (word_of_int x :: byte) = x"
  by (simp add: uint_word_of_int take_bit_int_eq_self)

lemma mode_code_cases:
  "dict_get MODE_MAP m 0 \<in> {0, 1, 2, 3, 4, 5, 6, 7, 8, 9, 10}"
  by (simp add: dict_get_def MODE_MAP_def MODE_items_def)

lemma mode_code_range: "0 \<le> dict_get MODE_MAP m 0" "dict_get MODE_MAP m 0 \<le> 10"
  using mode_code_cases [of m] by auto

lemma act_code_cases:
  "dict_get ACTIVITY_THRESH_MAP a 3 \<in> {0, 1, 2, 3, 4, 5, 6}"
  by (simp add: dict_get_def ACTIVITY_THRESH_MAP_def ACTIVITY_THRESH_items_def)

lemma act_code_range: "0 \<le> dict_get ACTIVITY_THRESH_MAP a 3" "dict_get ACTIVITY_THRESH_MAP a 3 \<le> 6"
  using act_code_cases [of a] by auto

lemma pack_loop_15:
  assumes "\<forall>v \<in> set vs. 0 \<le> v \<and> v \<le> 255" "length vs = 15"
  shows "pack_loop (zip (replicate PACKET_LEN (CHR ''B'')) vs) [] = Inr (map word_of_int vs)"
proof -
  have gen: "\<forall>v \<in> set xs. 0 \<le> v \<and> v \<le> 255 \<Longrightarrow>
      pack_loop (zip (replicate (length xs) (CHR ''B'')) xs) acc = Inr (acc @ map word_of_int xs)"
    for xs acc
    by (induction xs arbitrary: acc) (simp_all add: struct_pack_def)
  from gen [of vs "[]"] assms show ?thesis by (simp add: PACKET_LEN_def)
qed

lemma encode_Inr:
  assumes "py_round (times_10 (atrial_amplitude s)) = Inr aa"
    and "py_round (times_10 (ventricular_amplitude s)) = Inr va"
    and "py_round (atrial_pulse_width s) = Inr apw"
    and "py_round (ventricular_pulse_width s) = Inr vpw"
  shows "encode_settings_to_frame s =
     Inr (map word_of_int
       [9, dict_get MODE_MAP (mode s) 0,
        max 0 (min 255 (lower_rate_limit s)),
        max 0 (min 255 (upper_rate_limit s)),
        max 0 (min 255 aa),
        max 0 (min 255 apw),
        max 0 (min 255 va),
        max 0 (min 255 vpw),
        max 0 (min 255 (atrial_refractory_period s)),
        max 0 (min 255 (ventricular_refractory_period s)),
        max 0 (min 255 (recovery_time s)),
        max 0 (min 255 (reaction_time s)),
        max 0 (min 255 (response_factor s)),
        dict_get ACTIVITY_THRESH_MAP (activity_threshold s) 3,
        max 0 (min 255 (maximum_sensor_rate s))])"
proof -
  have mc: "dict_get MODE_MAP (mode s) 0 AND 255 = dict_get MODE_MAP (mode s) 0"
    using mode_code_range [of "mode s"] by (intro and_255_id) simp_all
  have ac: "max 0 (min 255 (dict_get ACTIVITY_THRESH_MAP (activity_threshold s) 3))
      = dict_get ACTIVITY_THRESH_MAP (activity_threshold s) 3"
    using act_code_range [of "activity_threshold s"] by simp
  have ac2: "dict_get ACTIVITY_THRESH_MAP (activity_threshold s) 3 AND 255
      = dict_get ACTIVITY_THRESH_MAP (activity_threshold s) 3"
    using act_code_range [of "activity_threshold s"] by (intro and_255_id) simp_all
  have cl: "max 0 (min 255 x) AND 255 = max 0 (min 255 x)" for x :: int
    by (intro and_255_id) simp_all
  have sync: "SYNC_BYTE AND 255 = 9"
    by (simp add: SYNC_BYTE_def and_255_id)
  show ?thesis
    unfolding encode_settings_to_frame_def Let_def raising_def assms sum.case mc ac ac2 cl sync
    apply (rule pack_loop_15)
    using mode_code_range [of "mode s"] act_code_range [of "activity_threshold s"]
     apply simp
    apply simp
    done
qed

lemma uint_map_bytes:
  assumes "\<forall>v \<in> set vs. 0 \<le> v \<and> v \<le> 255"
  shows "map uint (map word_of_int vs :: byte list) = vs"
  using assms by (induction vs) (simp_all add: uint_byte_of_int)

lemma py_round_finite: "is_finite x \<Longrightarrow> \<exists>k. py_round x = Inr k"
  by (cases x) simp_all

lemma py_round_not_finite: "\<not> is_finite x \<Longrightarrow> \<exists>e. py_round x = Inl e"
  by (cases x) simp_all

lemma encode_Inr_encodable:
  assumes "encode_settings_to_frame s = Inr f"
  shows "encodable s"
proof (rule ccontr)
  assume "\<not> encodable s"
  then consider "\<not> is_finite (times_10 (atrial_amplitude s))"
    | "\<not> is_finite (times_10 (ventricular_amplitude s))"
    | "\<not> is_finite (atrial_pulse_width s)"
    | "\<not> is_finite (ventricular_pulse_width s)"
    by (auto simp: encodable_def)
  then have "\<exists>e. encode_settings_to_frame s = Inl e"
  proof cases
    case 1
    then show ?thesis
      using py_round_not_finite [of "times_10 (atrial_amplitude s)"]
      by (auto simp: encode_settings_to_frame_def raising_def Let_def)
  next
    case 2
    then show ?thesis
      using py_round_not_finite [of "times_10 (ventricular_amplitude s)"]
      by (auto simp: encode_settings_to_frame_def raising_def Let_def split: sum.split)
  next
    case 3
    then show ?thesis
      using py_round_not_finite [of "atrial_pulse_width s"]
      by (auto simp: encode_settings_to_frame_def raising_def Let_def split: sum.split)
  next
    case 4
    then show ?thesis
      using py_round_not_finite [of "ventricular_pulse_width s"]
      by (auto simp: encode_settings_to_frame_def raising_def Let_def split: sum.split)
  qed
  with assms show False by simp
qed

lemma encodable_rounds:
  assumes "encodable s"
  obtains aa va apw vpw where
    "py_round (times_10 (atrial_amplitude s)) = Inr aa"
    "py_round (times_10 (ventricular_amplitude s)) = Inr va"
    "py_round (atrial_pulse_width s) = Inr apw"
    "py_round (ventricular_pulse_width s) = Inr vpw"
proof -
  from assms have
    "\<exists>k. py_round (times_10 (atrial_amplitude s)) = Inr k"
    "\<exists>k. py_round (times_10 (ventricular_amplitude s)) = Inr k"
    "\<exists>k. py_round (atrial_pulse_width s) = Inr k"
    "\<exists>k. py_round (ventricular_pulse_width s) = Inr k"
    by (simp_all add: encodable_def py_round_finite)
  then show ?thesis using that by blast
qed

lemma wire_values_in_range:
  "\<forall>v \<in> set [9, dict_get MODE_MAP m 0,
        max 0 (min 255 x2), max 0 (min 255 x3), max 0 (min 255 x4), max 0 (min 255 x5),
        max 0 (min 255 x6), max 0 (min 255 x7), max 0 (min 255 x8), max 0 (min 255 x9),
        max 0 (min 255 x10), max 0 (min 255 x11), max 0 (min 255 x12),
        dict_get ACTIVITY_THRESH_MAP a 3, max 0 (min 255 x14)]. 0 \<le> v \<and> v \<le> (255::int)"
  using mode_code_range [of m] act_code_range [of a] by simp

lemma encode_length:
  assumes "encode_settings_to_frame s = Inr f"
  shows "length f = 15"
proof -
  obtain aa va apw vpw where r:
    "py_round (times_10 (atrial_amplitude s)) = Inr aa"
    "py_round (times_10 (ventricular_amplitude s)) = Inr va"
    "py_round (atrial_pulse_width s) = Inr apw"
    "py_round (ventricular_pulse_width s) = Inr vpw"
    using encodable_rounds [OF encode_Inr_encodable [OF assms]] by blast
  show ?thesis
    using encode_Inr [OF r] assms by auto
qed

lemma encode_default_VVI:
  "encode_settings_to_frame (default_settings owner ''VVI'') =
     Inr [9, 4, 60, 120, 35, 0, 35, 0, 250, 255, 5, 30, 8, 3, 120]"
proof -
  let ?s = "default_settings owner ''VVI''"
  have "encode_settings_to_frame ?s = Inr (map word_of_int
       [9, dict_get MODE_MAP (mode ?s) 0,
        max 0 (min 255 (lower_rate_limit ?s)),
        max 0 (min 255 (upper_rate_limit ?s)),
        max 0 (min 255 35),
        max 0 (min 255 0),
        max 0 (min 255 35),
        max 0 (min 255 0),
        max 0 (min 255 (atrial_refractory_period ?s)),
        max 0 (min 255 (ventricular_refractory_period ?s)),
        max 0 (min 255 (recovery_time ?s)),
        max 0 (min 255 (reaction_time ?s)),
        max 0 (min 255 (response_factor ?s)),
        dict_get ACTIVITY_THRESH_MAP (activity_threshold ?s) 3,
        max 0 (min 255 (maximum_sensor_rate ?s))])"
    by (rule encode_Inr) (simp_all add: default_settings_def py_round_0_4 py_round_3_5_times_10)
  then show ?thesis
    by (simp add: default_settings_def dict_get_def MODE_MAP_def MODE_items_def
        ACTIVITY_THRESH_MAP_def ACTIVITY_THRESH_items_def)
qed

lemma is_finite_0_4: "is_finite (round_double (2 / 5))"
  using round_double_0_4 by (metis is_finite.simps(1))

lemma round_double_0_4_nonzero: "round_double (2 / 5) \<noteq> Finite 0"
proof -
  obtain v where v: "round_double (2 / 5) = Finite v" "\<bar>v - 2 / 5\<bar> \<le> 1 / 1000"
    by (rule round_double_0_4)
  from v(2) have "v \<noteq> 0" by auto
  with v(1) show ?thesis by simp
qed

lemma within_byte_range_0_4: "within_byte_range (round_double (2 / 5))"
proof -
  obtain v where v: "round_double (2 / 5) = Finite v" "\<bar>v - 2 / 5\<bar> \<le> 1 / 1000"
    by (rule round_double_0_4)
  from v(2) have "v - 2 / 5 \<le> 1 / 1000" and "2 / 5 - v \<le> 1 / 1000"
    by (simp_all only: abs_le_iff minus_diff_eq)
  then have "0 \<le> v \<and> v \<le> 255" by simp
  with v(1) show ?thesis by (simp add: within_byte_range_def)
qed

lemma round_half_even_ge:
  assumes "of_int n \<le> x"
  shows "n \<le> round_half_even x"
proof -
  have "x - 1 / 2 \<le> of_int (round_half_even x)"
    using round_half_even_error [of x] by (simp only: abs_le_iff minus_diff_eq) simp
  with assms have "(of_int n :: rat) < of_int (round_half_even x) + 1" by simp
  then have "(of_int n :: rat) < of_int (round_half_even x + 1)" by simp
  then have "n < round_half_even x + 1" by (simp only: of_int_less_iff)
  then show ?thesis by simp
qed

lemma round_double_overflow:
  assumes "2 ^ 1024 \<le> r"
  shows "round_double r = PosInf"
proof -
  define e where "e = floor_log2 r"
  define u :: rat where "u = 2 powi (max e (- 1022) - 52)"
  have pos: "0 < r" using assms by (rule less_le_trans [rotated]) simp
  then have absr: "\<bar>r\<bar> = r" by simp
  have "(2::rat) powi 1024 < 2 powi (e + 1)"
    using floor_log2_bounds(2) [of r] pos assms by (simp add: e_def)
  then have "1024 < e + 1"
    using power_int_increasing [of "e + 1" 1024 "2::rat"] by (cases "1024 < e + 1") auto
  then have e: "1024 \<le> e" by simp
  then have u: "u = 2 powi (e - 52)" by (simp add: u_def)
  have upos: "0 < u" by (simp add: u_def)
  have le: "(2::rat) powi e \<le> r"
    using floor_log2_bounds(1) [of r] pos by (simp add: e_def)
  have "(2::rat) powi (52 + (e - 52)) = 2 powi 52 * 2 powi (e - 52)"
    by (rule power_int_add) simp
  then have split: "of_int (2 ^ 52) * u = 2 powi e"
    by (simp add: u)
  then have "of_int (2 ^ 52) * u \<le> r" using le by simp
  then have "of_int (2 ^ 52) \<le> r / u" using upos by (simp add: pos_le_divide_eq)
  then have "2 ^ 52 \<le> round_half_even (r / u)" by (rule round_half_even_ge)
  then have "(of_int (2 ^ 52) :: rat) \<le> of_int (round_half_even (r / u))"
    by (simp only: of_int_le_iff)
  then have "of_int (2 ^ 52) * u \<le> of_int (round_half_even (r / u)) * u"
    using upos by (intro mult_right_mono) simp_all
  moreover note split
  moreover have "(2::rat) ^ 1024 \<le> 2 powi e"
    using power_int_increasing [of 1024 e "2::rat"] e by simp
  ultimately have "2 ^ 1024 \<le> of_int (round_half_even (r / u)) * u" by linarith
  then show ?thesis
    using pos by (simp add: round_double_def Let_def absr flip: e_def u_def)
qed

lemma times_10_overflow: "times_10 (Finite (2 ^ 1023)) = PosInf"
  by (simp add: round_double_overflow)

lemma encodable_default: "encodable (default_settings owner m)"
  by (simp add: encodable_def default_settings_def round_double_3_5 is_finite_0_4)

lemma encodable_bounded:
  assumes "atrial_amplitude s = Finite a" "\<bar>a\<bar> < 2 ^ 1019"
    and "ventricular_amplitude s = Finite v" "\<bar>v\<bar> < 2 ^ 1019"
    and "is_finite (atrial_pulse_width s)" "is_finite (ventricular_pulse_width s)"
  shows "encodable s"
proof -
  have fin: "is_finite (round_double (r * 10))" if "\<bar>r\<bar> < 2 ^ 1019" for r :: rat
  proof (cases "r = 0")
    case True
    then show ?thesis by simp
  next
    case False
    have "\<bar>r * 10\<bar> < 2 ^ 1019 * 16" using that by (simp add: abs_mult)
    then have "\<bar>r * 10\<bar> < 2 powi 1023" by simp
    then have "\<exists>w. round_double (r * 10) = Finite w \<and> \<bar>w - r * 10\<bar> \<le> 2 powi (1023 - 54)"
      using False by (intro round_double_error) simp_all
    then show ?thesis by auto
  qed
  show ?thesis
    using assms fin [of a] fin [of v] by (simp add: encodable_def)
qed

section \<open>Facts about the decoder and the round trip\<close>

lemma amplitude_round_trip:
  assumes "0 \<le> k" "k \<le> 255"
  shows "py_round (times_10 (div_by_10 k)) = Inr k"
proof (cases "k = 0")
  case True
  then show ?thesis by (simp add: div_by_10_def)
next
  case False
  define r :: rat where "r = of_int k / 10"
  have k1: "1 \<le> k" using assms False by simp
  have rlo: "1 / 10 \<le> r" and rhi: "r \<le> 255 / 10"
    using k1 assms(2) by (simp_all add: r_def)
  have e1: "(2::rat) powi (5 - 54) \<le> 1 / 10 ^ 14" and e2: "(2::rat) powi (8 - 54) \<le> 1 / 10 ^ 13"
    by (simp_all add: power_int_minus)
  have "\<exists>v. round_double r = Finite v \<and> \<bar>v - r\<bar> \<le> 2 powi (5 - 54)"
    using rlo rhi by (intro round_double_error) simp_all
  then obtain v where v: "round_double r = Finite v" "\<bar>v - r\<bar> \<le> 1 / 10 ^ 14"
    using e1 by (meson order_trans)
  have "v - r \<le> 1 / 10 ^ 14" and "r - v \<le> 1 / 10 ^ 14"
    using v(2) by (simp_all only: abs_le_iff minus_diff_eq)
  then have vlo: "1 / 20 \<le> v" and vhi: "v \<le> 51 / 2 + 1 / 20"
    using rlo rhi by simp_all
  have "\<exists>w. round_double (v * 10) = Finite w \<and> \<bar>w - v * 10\<bar> \<le> 2 powi (8 - 54)"
    using vlo vhi by (intro round_double_error) simp_all
  then obtain w where w: "round_double (v * 10) = Finite w" "\<bar>w - v * 10\<bar> \<le> 1 / 10 ^ 13"
    using e2 by (meson order_trans)
  have "r * 10 = of_int k" by (simp add: r_def)
  moreover have "w - v * 10 \<le> 1 / 10 ^ 13" and "v * 10 - w \<le> 1 / 10 ^ 13"
    using w(2) by (simp_all only: abs_le_iff minus_diff_eq)
  moreover note \<open>v - r \<le> 1 / 10 ^ 14\<close> \<open>r - v \<le> 1 / 10 ^ 14\<close>
  ultimately have "w - of_int k < 1 / 2" and "of_int k - w < 1 / 2"
    by simp_all
  then have "\<bar>w - of_int k\<bar> < 1 / 2"
    by (simp only: abs_less_iff minus_diff_eq)
  then have "round_half_even w = k" by (rule round_half_even_near)
  then show ?thesis
    by (simp add: div_by_10_def v(1) w(1) flip: r_def)
qed

lemma div_by_10_finite:
  assumes "0 \<le> k" "k \<le> 255"
  shows "is_finite (div_by_10 k)"
  using amplitude_round_trip [OF assms] by (cases "div_by_10 k") simp_all

lemma mode_round_trip: "dict_get MODE_MAP_INV (dict_get MODE_MAP m 0) m = m"
  by (simp add: dict_get_def MODE_MAP_def MODE_MAP_INV_def invert_items_def MODE_items_def)

lemma act_round_trip:
  "ACTIVITY_THRESH_MAP a \<noteq> None \<Longrightarrow>
   dict_get ACTIVITY_THRESH_MAP_INV (dict_get ACTIVITY_THRESH_MAP a 3) ''Med'' = a"
  by (simp add: dict_get_def ACTIVITY_THRESH_MAP_def ACTIVITY_THRESH_MAP_INV_def invert_items_def
      ACTIVITY_THRESH_items_def split: if_splits)

lemma mode_inv_outside:
  "k \<notin> snd ` set MODE_items \<Longrightarrow> dict_get MODE_MAP_INV k m = m"
  by (simp add: dict_get_def MODE_MAP_INV_def invert_items_def MODE_items_def)

lemma act_inv_outside:
  "k \<notin> snd ` set ACTIVITY_THRESH_items \<Longrightarrow> dict_get ACTIVITY_THRESH_MAP_INV k ''Med'' = ''Med''"
  by (simp add: dict_get_def ACTIVITY_THRESH_MAP_INV_def invert_items_def ACTIVITY_THRESH_items_def)

lemma decode_wrong_length:
  "length frame \<noteq> 15 \<Longrightarrow>
   decode_frame_to_settings m frame c = (Inl (ValueError ''Frame must be 15 bytes.''), c)"
  by (simp add: decode_frame_to_settings_def PACKET_LEN_def)

lemma decode_result:
  assumes "length frame = 15"
  shows "fst (decode_frame_to_settings m frame c) =
     Inr ((default_settings ''device'' (dict_get MODE_MAP_INV (uint (frame ! 1)) m))
            \<lparr>lower_rate_limit := uint (frame ! 2),
             upper_rate_limit := uint (frame ! 3),
             maximum_sensor_rate := uint (frame ! 14),
             atrial_amplitude := div_by_10 (uint (frame ! 4)),
             atrial_pulse_width := float_of_int (uint (frame ! 5)),
             ventricular_amplitude := div_by_10 (uint (frame ! 6)),
             ventricular_pulse_width := float_of_int (uint (frame ! 7)),
             atrial_refractory_period := uint (frame ! 8),
             ventricular_refractory_period := uint (frame ! 9),
             recovery_time := uint (frame ! 10),
             reaction_time := uint (frame ! 11),
             response_factor := uint (frame ! 12),
             activity_threshold :=
               dict_get ACTIVITY_THRESH_MAP_INV (uint (frame ! 13)) ''Med''\<rparr>)"
  using assms by (simp add: decode_frame_to_settings_def PACKET_LEN_def Let_def)

lemma decode_log:
  assumes "length frame = 15"
  shows "snd (decode_frame_to_settings m frame c) =
     (if uint (frame ! 0) \<noteq> SYNC_BYTE
      then log_text (''[PARAM] Warning: unexpected sync byte '' @ format_hex (uint (frame ! 0))
                     @ '', expected '' @ format_hex SYNC_BYTE @ ''.'') c
      else c)"
  using assms by (simp add: decode_frame_to_settings_def PACKET_LEN_def Let_def)

lemma decode_15_ex:
  "length frame = 15 \<Longrightarrow> \<exists>s'. fst (decode_frame_to_settings m frame c) = Inr s'"
  by (simp add: decode_result)

lemma tenth_volts_3_5: "tenth_volts (round_double (7 / 2))"
proof -
  have "round_double (7 / 2) = div_by_10 35" by (simp add: div_by_10_def)
  then show ?thesis unfolding tenth_volts_def by (intro bexI [of _ 35]) simp_all
qed

lemma whole_ms_1: "whole_ms (Finite 1)"
  unfolding whole_ms_def by (intro bexI [of _ 1]) (simp_all add: float_of_int_def)

section \<open>Facts about the service\<close>

lemma append_log_fields [simp]:
  "ser (append_log l c) = ser c"
  "port (append_log l c) = port c"
  "is_connected_flag (append_log l c) = is_connected_flag c"
  "last_sent_settings (append_log l c) = last_sent_settings c"
  "log_writable (append_log l c) = log_writable c"
  "uart_log (append_log l c) = (if log_writable c then uart_log c @ [l] else uart_log c)"
  by (simp_all add: append_log_def)

lemma is_connected_append_log [simp]: "is_connected (append_log l c) = is_connected c"
  by (simp add: is_connected_def)

lemma port_str_append_log [simp]: "port_str (append_log l c) = port_str c"
  by (simp add: port_str_def)

lemma is_connected_last_sent [simp]:
  "is_connected (c\<lparr>last_sent_settings := x\<rparr>) = is_connected c"
  by (simp add: is_connected_def)


lemma write_bytes_disconnected:
  "\<not> is_connected c \<Longrightarrow> write_bytes payload c = (False, append_log (FrameLine ''TX-NC'' payload) c)"
  by (cases "ser c") (simp_all add: write_bytes_def log_frame_def)

lemma write_bytes_ok:
  "is_connected c \<Longrightarrow> ser c = Some sp \<Longrightarrow> write_error sp = None \<Longrightarrow>
   write_bytes payload c =
     (True, append_log (FrameLine ''TX'' payload)
        (c\<lparr>ser := Some (sp\<lparr>written := written sp @ [payload]\<rparr>)\<rparr>))"
  by (simp add: write_bytes_def log_frame_def ser_write_def)

lemma write_bytes_error:
  "is_connected c \<Longrightarrow> ser c = Some sp \<Longrightarrow> write_error sp = Some msg \<Longrightarrow>
   write_bytes payload c =
     (False, append_log (TextLine (''[WRITE] Error writing to '' @ port_str c @ '': '' @ msg))
        (append_log (FrameLine ''TX-ERR'' payload) c))"
  by (simp add: write_bytes_def log_frame_def log_text_def ser_write_def)






lemma connected_comms_facts:
  "is_connected (connected_comms (open_port w f))"
  "ser (connected_comms sp) = Some sp"
  "\<not> is_connected (new_comms br wr lg)"
  by (simp_all add: connected_comms_def open_port_def new_comms_def is_connected_def)

section \<open>The frame codec\<close>

text \<open>
  Claim C1, as amended.  For every parameter record whose fourteen transmitted fields
  are in range (mode in the mode table, activity threshold in its table, the eight int
  fields between 0 and 255, each amplitude the float of a multiple of 0.1 V between 0
  and 25.5 V, each pulse width a whole number of milliseconds between 0 and 255), the
  encoder returns a frame, and decoding that frame with the record's own mode as fallback
  returns a record equal to it on all fourteen transmitted fields; the amplitudes are
  recovered exactly, since the decoder's \<^verbatim>\<open>b / 10.0\<close> is the same double.
\<close>

theorem round_trip_wire_subset:
  assumes "wire_fields_in_range whole_ms s"
  shows "\<exists>f s'. encode_settings_to_frame s = Inr f \<and>
           fst (decode_frame_to_settings (mode s) f c) = Inr s' \<and>
           wire_subset s' = wire_subset s"
proof -
  from assms obtain ka kv kp kq where
    ka: "0 \<le> ka" "ka \<le> 255" "atrial_amplitude s = div_by_10 ka" and
    kv: "0 \<le> kv" "kv \<le> 255" "ventricular_amplitude s = div_by_10 kv" and
    kp: "0 \<le> kp" "kp \<le> 255" "atrial_pulse_width s = float_of_int kp" and
    kq: "0 \<le> kq" "kq \<le> 255" "ventricular_pulse_width s = float_of_int kq"
    unfolding wire_fields_in_range_def tenth_volts_def whole_ms_def by auto
  from assms have ints:
    "0 \<le> lower_rate_limit s" "lower_rate_limit s \<le> 255"
    "0 \<le> upper_rate_limit s" "upper_rate_limit s \<le> 255"
    "0 \<le> maximum_sensor_rate s" "maximum_sensor_rate s \<le> 255"
    "0 \<le> atrial_refractory_period s" "atrial_refractory_period s \<le> 255"
    "0 \<le> ventricular_refractory_period s" "ventricular_refractory_period s \<le> 255"
    "0 \<le> recovery_time s" "recovery_time s \<le> 255"
    "0 \<le> reaction_time s" "reaction_time s \<le> 255"
    "0 \<le> response_factor s" "response_factor s \<le> 255"
    and act: "ACTIVITY_THRESH_MAP (activity_threshold s) \<noteq> None"
    unfolding wire_fields_in_range_def byte_range_def by simp_all
  have r: "py_round (times_10 (atrial_amplitude s)) = Inr ka"
    "py_round (times_10 (ventricular_amplitude s)) = Inr kv"
    "py_round (atrial_pulse_width s) = Inr kp"
    "py_round (ventricular_pulse_width s) = Inr kq"
    by (simp_all add: ka kv kp kq amplitude_round_trip float_of_int_def round_half_even_of_int)
  define f :: "byte list" where "f = map word_of_int
       [9, dict_get MODE_MAP (mode s) 0,
        lower_rate_limit s, upper_rate_limit s, ka, kp, kv, kq,
        atrial_refractory_period s, ventricular_refractory_period s,
        recovery_time s, reaction_time s, response_factor s,
        dict_get ACTIVITY_THRESH_MAP (activity_threshold s) 3,
        maximum_sensor_rate s]"
  have enc: "encode_settings_to_frame s = Inr f"
    using encode_Inr [OF r] ints ka(1,2) kv(1,2) kp(1,2) kq(1,2) by (simp add: f_def)
  have len: "length f = 15" by (simp add: f_def)
  have mc: "0 \<le> dict_get MODE_MAP (mode s) 0" "dict_get MODE_MAP (mode s) 0 \<le> 255"
    using mode_code_range [of "mode s"] by simp_all
  have ac: "0 \<le> dict_get ACTIVITY_THRESH_MAP (activity_threshold s) 3"
    "dict_get ACTIVITY_THRESH_MAP (activity_threshold s) 3 \<le> 255"
    using act_code_range [of "activity_threshold s"] by simp_all
  have nth:
    "uint (f ! 1) = dict_get MODE_MAP (mode s) 0"
    "uint (f ! 2) = lower_rate_limit s"
    "uint (f ! 3) = upper_rate_limit s"
    "uint (f ! 4) = ka"
    "uint (f ! 5) = kp"
    "uint (f ! 6) = kv"
    "uint (f ! 7) = kq"
    "uint (f ! 8) = atrial_refractory_period s"
    "uint (f ! 9) = ventricular_refractory_period s"
    "uint (f ! 10) = recovery_time s"
    "uint (f ! 11) = reaction_time s"
    "uint (f ! 12) = response_factor s"
    "uint (f ! 13) = dict_get ACTIVITY_THRESH_MAP (activity_threshold s) 3"
    "uint (f ! 14) = maximum_sensor_rate s"
    using ints ka(1,2) kv(1,2) kp(1,2) kq(1,2) mc ac
    by (simp_all add: f_def uint_byte_of_int)
  define s' where "s' = (default_settings ''device'' (mode s))
            \<lparr>lower_rate_limit := lower_rate_limit s,
             upper_rate_limit := upper_rate_limit s,
             maximum_sensor_rate := maximum_sensor_rate s,
             atrial_amplitude := atrial_amplitude s,
             atrial_pulse_width := atrial_pulse_width s,
             ventricular_amplitude := ventricular_amplitude s,
             ventricular_pulse_width := ventricular_pulse_width s,
             atrial_refractory_period := atrial_refractory_period s,
             ventricular_refractory_period := ventricular_refractory_period s,
             recovery_time := recovery_time s,
             reaction_time := reaction_time s,
             response_factor := response_factor s,
             activity_threshold := activity_threshold s\<rparr>"
  have dec: "fst (decode_frame_to_settings (mode s) f c) = Inr s'"
    unfolding decode_result [OF len] nth s'_def
    by (simp only: mode_round_trip act_round_trip [OF act] ka(3) kv(3) kp(3) kq(3))
  have "wire_subset s' = wire_subset s"
    by (simp add: s'_def wire_subset_def default_settings_def)
  with enc dec show ?thesis by blast
qed

text \<open>
  A record in range: the defaults of mode "VVI" with pulse widths of 1 ms and a
  ventricular refractory period of 250 ms.
\<close>

theorem round_trip_wire_subset_witness:
  "wire_fields_in_range whole_ms
     ((default_settings ''user'' ''VVI'')
        \<lparr>atrial_pulse_width := Finite 1, ventricular_pulse_width := Finite 1,
         ventricular_refractory_period := 250\<rparr>) \<and>
   (\<exists>f s'. encode_settings_to_frame
            ((default_settings ''user'' ''VVI'')
               \<lparr>atrial_pulse_width := Finite 1, ventricular_pulse_width := Finite 1,
                ventricular_refractory_period := 250\<rparr>) = Inr f \<and>
           fst (decode_frame_to_settings ''VVI'' f (new_comms 115200 True [])) = Inr s' \<and>
           wire_subset s' =
           wire_subset ((default_settings ''user'' ''VVI'')
               \<lparr>atrial_pulse_width := Finite 1, ventricular_pulse_width := Finite 1,
                ventricular_refractory_period := 250\<rparr>))"
proof -
  let ?s = "(default_settings ''user'' ''VVI'')
        \<lparr>atrial_pulse_width := Finite 1, ventricular_pulse_width := Finite 1,
         ventricular_refractory_period := 250\<rparr>"
  have h: "wire_fields_in_range whole_ms ?s"
    by (simp add: wire_fields_in_range_def default_settings_def byte_range_def
        tenth_volts_3_5 whole_ms_1 MODE_MAP_def MODE_items_def
        ACTIVITY_THRESH_MAP_def ACTIVITY_THRESH_items_def)
  have m: "mode ?s = ''VVI''" by (simp add: default_settings_def)
  from round_trip_wire_subset [OF h, of "new_comms 115200 True []"] h show ?thesis
    unfolding m by blast
qed

text \<open>
  The claim as first stated lets a pulse width be any value in range.  The defaults of
  mode "VVI" (with the ventricular refractory period lowered to 250) have pulse widths
  of 0.4 ms, between 0 and 255 and within the 0.05 to 1.9 ms of the validation service;
  the encoder rounds 0.4 to the byte 0 and the decoder returns 0.0.
\<close>

theorem round_trip_loses_pulse_width:
  "wire_fields_in_range within_byte_range
     ((default_settings ''user'' ''VVI'')\<lparr>ventricular_refractory_period := 250\<rparr>) \<and>
   encode_settings_to_frame
     ((default_settings ''user'' ''VVI'')\<lparr>ventricular_refractory_period := 250\<rparr>)
     = Inr [9, 4, 60, 120, 35, 0, 35, 0, 250, 250, 5, 30, 8, 3, 120] \<and>
   map_sum id atrial_pulse_width
     (fst (decode_frame_to_settings ''VVI''
        [9, 4, 60, 120, 35, 0, 35, 0, 250, 250, 5, 30, 8, 3, 120] (new_comms 115200 True [])))
     = Inr (Finite 0) \<and>
   atrial_pulse_width
     ((default_settings ''user'' ''VVI'')\<lparr>ventricular_refractory_period := 250\<rparr>)
     \<noteq> Finite 0"
proof (intro conjI)
  let ?s = "(default_settings ''user'' ''VVI'')\<lparr>ventricular_refractory_period := 250\<rparr>"
  show "wire_fields_in_range within_byte_range ?s"
    by (simp add: wire_fields_in_range_def default_settings_def byte_range_def
        tenth_volts_3_5 within_byte_range_0_4 MODE_MAP_def MODE_items_def
        ACTIVITY_THRESH_MAP_def ACTIVITY_THRESH_items_def)
  have "py_round (times_10 (atrial_amplitude ?s)) = Inr 35"
    and "py_round (times_10 (ventricular_amplitude ?s)) = Inr 35"
    and "py_round (atrial_pulse_width ?s) = Inr 0"
    and "py_round (ventricular_pulse_width ?s) = Inr 0"
    by (simp_all add: default_settings_def py_round_0_4 py_round_3_5_times_10)
  from encode_Inr [OF this]
  show "encode_settings_to_frame ?s = Inr [9, 4, 60, 120, 35, 0, 35, 0, 250, 250, 5, 30, 8, 3, 120]"
    by (simp add: default_settings_def dict_get_def MODE_MAP_def MODE_items_def
        ACTIVITY_THRESH_MAP_def ACTIVITY_THRESH_items_def)
  show "map_sum id atrial_pulse_width
     (fst (decode_frame_to_settings ''VVI''
        [9, 4, 60, 120, 35, 0, 35, 0, 250, 250, 5, 30, 8, 3, 120] (new_comms 115200 True [])))
     = Inr (Finite 0)"
    by (simp add: decode_result float_of_int_def)
  show "atrial_pulse_width ?s \<noteq> Finite 0"
    by (simp add: default_settings_def round_double_0_4_nonzero)
qed

text \<open>
  Claim C2, as amended.  Encoding a parameter record with mode "VVI",
  lower rate limit 60, upper rate limit 120, both amplitudes 3.5, both pulse widths
  0.4, atrial refractory period 250, ventricular refractory period 320, recovery time
  5, reaction time 30, response factor 8, activity threshold "Med" and maximum sensor
  rate 120 yields the 15 bytes SYNC, 4, 60, 120, 35, 0, 35, 0, 250, 255, 5, 30, 8, 3,
  120: the ventricular refractory period 320 is clamped to 255 (it does not wrap
  around to 64), and the pulse widths 0.4 round to 0.
\<close>

theorem scenario_frame:
  assumes "mode s = ''VVI''"
    and "lower_rate_limit s = 60"
    and "upper_rate_limit s = 120"
    and "atrial_amplitude s = round_double (35 / 10)"
    and "atrial_pulse_width s = round_double (4 / 10)"
    and "ventricular_amplitude s = round_double (35 / 10)"
    and "ventricular_pulse_width s = round_double (4 / 10)"
    and "atrial_refractory_period s = 250"
    and "ventricular_refractory_period s = 320"
    and "recovery_time s = 5"
    and "reaction_time s = 30"
    and "response_factor s = 8"
    and "activity_threshold s = ''Med''"
    and "maximum_sensor_rate s = 120"
  shows "encode_settings_to_frame s =
     Inr [word_of_int SYNC_BYTE, 4, 60, 120, 35, 0, 35, 0, 250, 255, 5, 30, 8, 3, 120]"
proof -
  have "py_round (times_10 (atrial_amplitude s)) = Inr 35"
    and "py_round (times_10 (ventricular_amplitude s)) = Inr 35"
    and "py_round (atrial_pulse_width s) = Inr 0"
    and "py_round (ventricular_pulse_width s) = Inr 0"
    using assms by (simp_all add: py_round_0_4 py_round_3_5_times_10)
  from encode_Inr [OF this] show ?thesis
    using assms
    by (simp add: dict_get_def MODE_MAP_def MODE_items_def SYNC_BYTE_def
        ACTIVITY_THRESH_MAP_def ACTIVITY_THRESH_items_def)
qed

text \<open>
  The scenario is the default record of mode "VVI".
\<close>

theorem scenario_frame_witness:
  "encode_settings_to_frame (default_settings ''user'' ''VVI'') =
     Inr [word_of_int SYNC_BYTE, 4, 60, 120, 35, 0, 35, 0, 250, 255, 5, 30, 8, 3, 120]"
  by (rule scenario_frame) (simp_all add: default_settings_def)

text \<open>
  The byte list of the scenario as first stated, with 64 at offset 9, is not what the
  encoder returns.
\<close>

theorem scenario_frame_byte9_not_64:
  "encode_settings_to_frame (default_settings ''user'' ''VVI'') \<noteq>
     Inr [word_of_int SYNC_BYTE, 4, 60, 120, 35, 0, 35, 0, 250, 64, 5, 30, 8, 3, 120]"
  by (simp add: encode_default_VVI)

text \<open>
  Claim C3, as amended.  For every parameter record whose pulse widths are finite
  floats and whose amplitudes times 10.0 are finite floats, the encoder raises no
  exception and returns a frame in which every numeric field is its value (for a float
  field, the int that \<^verbatim>\<open>round\<close> returns) clamped into 0..255; in particular a field
  value of -5 encodes as byte 0 and a field value of 1000 as byte 255, for each of the
  twelve numeric fields.
\<close>

theorem encode_clamps:
  assumes "encodable s"
  shows "\<exists>f aa va apw vpw.
     encode_settings_to_frame s = Inr f \<and>
     py_round (times_10 (atrial_amplitude s)) = Inr aa \<and>
     py_round (times_10 (ventricular_amplitude s)) = Inr va \<and>
     py_round (atrial_pulse_width s) = Inr apw \<and>
     py_round (ventricular_pulse_width s) = Inr vpw \<and>
     map uint f =
       [SYNC_BYTE, dict_get MODE_MAP (mode s) 0,
        max 0 (min 255 (lower_rate_limit s)),
        max 0 (min 255 (upper_rate_limit s)),
        max 0 (min 255 aa),
        max 0 (min 255 apw),
        max 0 (min 255 va),
        max 0 (min 255 vpw),
        max 0 (min 255 (atrial_refractory_period s)),
        max 0 (min 255 (ventricular_refractory_period s)),
        max 0 (min 255 (recovery_time s)),
        max 0 (min 255 (reaction_time s)),
        max 0 (min 255 (response_factor s)),
        dict_get ACTIVITY_THRESH_MAP (activity_threshold s) 3,
        max 0 (min 255 (maximum_sensor_rate s))] \<and>
     (\<forall>b \<in> set f. 0 \<le> uint b \<and> uint b \<le> 255) \<and>
     (lower_rate_limit s = - 5 \<longrightarrow> uint (f ! 2) = 0) \<and>
     (lower_rate_limit s = 1000 \<longrightarrow> uint (f ! 2) = 255) \<and>
     (upper_rate_limit s = - 5 \<longrightarrow> uint (f ! 3) = 0) \<and>
     (upper_rate_limit s = 1000 \<longrightarrow> uint (f ! 3) = 255) \<and>
     (atrial_amplitude s = Finite (- 5) \<longrightarrow> uint (f ! 4) = 0) \<and>
     (atrial_amplitude s = Finite 1000 \<longrightarrow> uint (f ! 4) = 255) \<and>
     (atrial_pulse_width s = Finite (- 5) \<longrightarrow> uint (f ! 5) = 0) \<and>
     (atrial_pulse_width s = Finite 1000 \<longrightarrow> uint (f ! 5) = 255) \<and>
     (ventricular_amplitude s = Finite (- 5) \<longrightarrow> uint (f ! 6) = 0) \<and>
     (ventricular_amplitude s = Finite 1000 \<longrightarrow> uint (f ! 6) = 255) \<and>
     (ventricular_pulse_width s = Finite (- 5) \<longrightarrow> uint (f ! 7) = 0) \<and>
     (ventricular_pulse_width s = Finite 1000 \<longrightarrow> uint (f ! 7) = 255) \<and>
     (atrial_refractory_period s = - 5 \<longrightarrow> uint (f ! 8) = 0) \<and>
     (atrial_refractory_period s = 1000 \<longrightarrow> uint (f ! 8) = 255) \<and>
     (ventricular_refractory_period s = - 5 \<longrightarrow> uint (f ! 9) = 0) \<and>
     (ventricular_refractory_period s = 1000 \<longrightarrow> uint (f ! 9) = 255) \<and>
     (recovery_time s = - 5 \<longrightarrow> uint (f ! 10) = 0) \<and>
     (recovery_time s = 1000 \<longrightarrow> uint (f ! 10) = 255) \<and>
     (reaction_time s = - 5 \<longrightarrow> uint (f ! 11) = 0) \<and>
     (reaction_time s = 1000 \<longrightarrow> uint (f ! 11) = 255) \<and>
     (response_factor s = - 5 \<longrightarrow> uint (f ! 12) = 0) \<and>
     (response_factor s = 1000 \<longrightarrow> uint (f ! 12) = 255) \<and>
     (maximum_sensor_rate s = - 5 \<longrightarrow> uint (f ! 14) = 0) \<and>
     (maximum_sensor_rate s = 1000 \<longrightarrow> uint (f ! 14) = 255)"
proof -
  from assms obtain aa va apw vpw where r:
    "py_round (times_10 (atrial_amplitude s)) = Inr aa"
    "py_round (times_10 (ventricular_amplitude s)) = Inr va"
    "py_round (atrial_pulse_width s) = Inr apw"
    "py_round (ventricular_pulse_width s) = Inr vpw"
    by (rule encodable_rounds)
  define vals where "vals =
       [9, dict_get MODE_MAP (mode s) 0,
        max 0 (min 255 (lower_rate_limit s)),
        max 0 (min 255 (upper_rate_limit s)),
        max 0 (min 255 aa),
        max 0 (min 255 apw),
        max 0 (min 255 va),
        max 0 (min 255 vpw),
        max 0 (min 255 (atrial_refractory_period s)),
        max 0 (min 255 (ventricular_refractory_period s)),
        max 0 (min 255 (recovery_time s)),
        max 0 (min 255 (reaction_time s)),
        max 0 (min 255 (response_factor s)),
        dict_get ACTIVITY_THRESH_MAP (activity_threshold s) 3,
        max 0 (min 255 (maximum_sensor_rate s))]"
  define f :: "byte list" where "f = map word_of_int vals"
  have enc: "encode_settings_to_frame s = Inr f"
    unfolding f_def vals_def by (rule encode_Inr [OF r])
  have rng: "\<forall>v \<in> set vals. 0 \<le> v \<and> v \<le> 255"
    unfolding vals_def by (rule wire_values_in_range)
  have ints: "map uint f = vals"
    unfolding f_def using rng by (rule uint_map_bytes)
  have len: "length f = 15" by (simp add: f_def vals_def)
  have nth: "uint (f ! i) = vals ! i" if "i < 15" for i
  proof -
    have "uint (f ! i) = map uint f ! i" using that len by simp
    then show ?thesis by (simp only: ints)
  qed
  have bytes: "\<forall>b \<in> set f. 0 \<le> uint b \<and> uint b \<le> 255"
  proof
    fix b assume "b \<in> set f"
    then have "uint b \<in> set (map uint f)" by simp
    then show "0 \<le> uint b \<and> uint b \<le> 255" using rng by (simp only: ints)
  qed
  have amp: "aa = - 50" if "atrial_amplitude s = Finite (- 5)"
    using r(1) that by simp
  have amp': "aa = 10000" if "atrial_amplitude s = Finite 1000"
    using r(1) that by simp
  have vamp: "va = - 50" if "ventricular_amplitude s = Finite (- 5)"
    using r(2) that by simp
  have vamp': "va = 10000" if "ventricular_amplitude s = Finite 1000"
    using r(2) that by simp
  have pw: "apw = - 5" if "atrial_pulse_width s = Finite (- 5)"
    using r(3) that by simp
  have pw': "apw = 1000" if "atrial_pulse_width s = Finite 1000"
    using r(3) that by simp
  have vpw: "vpw = - 5" if "ventricular_pulse_width s = Finite (- 5)"
    using r(4) that by simp
  have vpw': "vpw = 1000" if "ventricular_pulse_width s = Finite 1000"
    using r(4) that by simp
  have particular:
    "lower_rate_limit s = - 5 \<longrightarrow> uint (f ! 2) = 0"
    "lower_rate_limit s = 1000 \<longrightarrow> uint (f ! 2) = 255"
    "upper_rate_limit s = - 5 \<longrightarrow> uint (f ! 3) = 0"
    "upper_rate_limit s = 1000 \<longrightarrow> uint (f ! 3) = 255"
    "atrial_amplitude s = Finite (- 5) \<longrightarrow> uint (f ! 4) = 0"
    "atrial_amplitude s = Finite 1000 \<longrightarrow> uint (f ! 4) = 255"
    "atrial_pulse_width s = Finite (- 5) \<longrightarrow> uint (f ! 5) = 0"
    "atrial_pulse_width s = Finite 1000 \<longrightarrow> uint (f ! 5) = 255"
    "ventricular_amplitude s = Finite (- 5) \<longrightarrow> uint (f ! 6) = 0"
    "ventricular_amplitude s = Finite 1000 \<longrightarrow> uint (f ! 6) = 255"
    "ventricular_pulse_width s = Finite (- 5) \<longrightarrow> uint (f ! 7) = 0"
    "ventricular_pulse_width s = Finite 1000 \<longrightarrow> uint (f ! 7) = 255"
    "atrial_refractory_period s = - 5 \<longrightarrow> uint (f ! 8) = 0"
    "atrial_refractory_period s = 1000 \<longrightarrow> uint (f ! 8) = 255"
    "ventricular_refractory_period s = - 5 \<longrightarrow> uint (f ! 9) = 0"
    "ventricular_refractory_period s = 1000 \<longrightarrow> uint (f ! 9) = 255"
    "recovery_time s = - 5 \<longrightarrow> uint (f ! 10) = 0"
    "recovery_time s = 1000 \<longrightarrow> uint (f ! 10) = 255"
    "reaction_time s = - 5 \<longrightarrow> uint (f ! 11) = 0"
    "reaction_time s = 1000 \<longrightarrow> uint (f ! 11) = 255"
    "response_factor s = - 5 \<longrightarrow> uint (f ! 12) = 0"
    "response_factor s = 1000 \<longrightarrow> uint (f ! 12) = 255"
    "maximum_sensor_rate s = - 5 \<longrightarrow> uint (f ! 14) = 0"
    "maximum_sensor_rate s = 1000 \<longrightarrow> uint (f ! 14) = 255"
    unfolding nth [of 2, simplified] nth [of 3, simplified] nth [of 4, simplified]
      nth [of 5, simplified] nth [of 6, simplified] nth [of 7, simplified]
      nth [of 8, simplified] nth [of 9, simplified] nth [of 10, simplified]
      nth [of 11, simplified] nth [of 12, simplified] nth [of 14, simplified]
    using amp amp' vamp vamp' pw pw' vpw vpw'
    by (auto simp: vals_def)
  have sync: "map uint f =
       [SYNC_BYTE, dict_get MODE_MAP (mode s) 0,
        max 0 (min 255 (lower_rate_limit s)),
        max 0 (min 255 (upper_rate_limit s)),
        max 0 (min 255 aa),
        max 0 (min 255 apw),
        max 0 (min 255 va),
        max 0 (min 255 vpw),
        max 0 (min 255 (atrial_refractory_period s)),
        max 0 (min 255 (ventricular_refractory_period s)),
        max 0 (min 255 (recovery_time s)),
        max 0 (min 255 (reaction_time s)),
        max 0 (min 255 (response_factor s)),
        dict_get ACTIVITY_THRESH_MAP (activity_threshold s) 3,
        max 0 (min 255 (maximum_sensor_rate s))]"
    by (simp only: ints vals_def SYNC_BYTE_def)
  show ?thesis
    apply (rule exI [of _ f], rule exI [of _ aa], rule exI [of _ va], rule exI [of _ apw],
        rule exI [of _ vpw])
    apply (intro conjI enc r sync bytes particular)
    done
qed

text \<open>
  The records whose numeric fields are all -5, and all 1000.
\<close>

theorem encode_clamps_witness:
  "encodable (all_numeric_fields (- 5)) \<and>
   (\<exists>f. encode_settings_to_frame (all_numeric_fields (- 5)) = Inr f \<and>
        map uint f = [9, 4, 0, 0, 0, 0, 0, 0, 0, 0, 0, 0, 0, 3, 0]) \<and>
   encodable (all_numeric_fields 1000) \<and>
   (\<exists>f. encode_settings_to_frame (all_numeric_fields 1000) = Inr f \<and>
        map uint f = [9, 4, 255, 255, 255, 255, 255, 255, 255, 255, 255, 255, 255, 3, 255])"
proof -
  have lo: "encodable (all_numeric_fields (- 5))"
    by (simp add: encodable_def all_numeric_fields_def)
  have hi: "encodable (all_numeric_fields 1000)"
    by (simp add: encodable_def all_numeric_fields_def)
  have tables: "dict_get MODE_MAP ''VVI'' 0 = 4" "dict_get ACTIVITY_THRESH_MAP ''Med'' 3 = 3"
    by (simp_all add: dict_get_def MODE_MAP_def MODE_items_def
        ACTIVITY_THRESH_MAP_def ACTIVITY_THRESH_items_def)
  have "\<exists>f. encode_settings_to_frame (all_numeric_fields (- 5)) = Inr f \<and>
        map uint f = [9, 4, 0, 0, 0, 0, 0, 0, 0, 0, 0, 0, 0, 3, 0]"
    using encode_clamps [OF lo]
    by (auto simp: all_numeric_fields_def default_settings_def tables SYNC_BYTE_def)
  moreover have "\<exists>f. encode_settings_to_frame (all_numeric_fields 1000) = Inr f \<and>
        map uint f = [9, 4, 255, 255, 255, 255, 255, 255, 255, 255, 255, 255, 255, 3, 255]"
    using encode_clamps [OF hi]
    by (auto simp: all_numeric_fields_def default_settings_def tables SYNC_BYTE_def)
  ultimately show ?thesis using lo hi by blast
qed

text \<open>
  Without the proviso the encoder can raise: an infinite amplitude reaches
  \<^verbatim>\<open>round\<close>, which raises OverflowError.  (A NaN raises ValueError, and a finite
  amplitude as large as \<open>2^1023\<close> overflows in the multiplication, see
  \<open>times_10_overflow\<close>.)
\<close>

theorem encode_raises_on_infinite_amplitude:
  "encode_settings_to_frame ((default_settings ''user'' ''VVI'')\<lparr>atrial_amplitude := PosInf\<rparr>)
     = Inl (OverflowError ''cannot convert float infinity to integer'')"
  by (simp add: encode_settings_to_frame_def raising_def)

text \<open>
  Claim C4, as amended.  The encoder returns a frame of exactly 15 bytes for every
  parameter record whose pulse widths and ten-fold amplitudes are finite floats, and
  raises for every other record; the decoder fails with the length error, leaving the
  service unchanged, for every input whose length is not 15, and returns a record for
  every input of 15 bytes.
\<close>

theorem frame_shape:
  "(encodable s \<longrightarrow> (\<exists>f. encode_settings_to_frame s = Inr f \<and> length f = 15)) \<and>
   (\<not> encodable s \<longrightarrow> (\<exists>e. encode_settings_to_frame s = Inl e)) \<and>
   (length frame \<noteq> 15 \<longrightarrow>
      decode_frame_to_settings m frame c = (Inl (ValueError ''Frame must be 15 bytes.''), c)) \<and>
   (length frame = 15 \<longrightarrow> (\<exists>s'. fst (decode_frame_to_settings m frame c) = Inr s'))"
proof (intro conjI impI)
  assume "encodable s"
  then obtain aa va apw vpw where r:
    "py_round (times_10 (atrial_amplitude s)) = Inr aa"
    "py_round (times_10 (ventricular_amplitude s)) = Inr va"
    "py_round (atrial_pulse_width s) = Inr apw"
    "py_round (ventricular_pulse_width s) = Inr vpw"
    by (rule encodable_rounds)
  from encode_Inr [OF r] obtain f where f: "encode_settings_to_frame s = Inr f" by blast
  with encode_length [OF f] show "\<exists>f. encode_settings_to_frame s = Inr f \<and> length f = 15"
    by blast
next
  assume "\<not> encodable s"
  then show "\<exists>e. encode_settings_to_frame s = Inl e"
    using encode_Inr_encodable [of s] by (cases "encode_settings_to_frame s") auto
next
  assume "length frame \<noteq> 15"
  then show "decode_frame_to_settings m frame c = (Inl (ValueError ''Frame must be 15 bytes.''), c)"
    by (rule decode_wrong_length)
next
  assume "length frame = 15"
  then show "\<exists>s'. fst (decode_frame_to_settings m frame c) = Inr s'"
    by (rule decode_15_ex)
qed

text \<open>
  The default record and a frame of 15 bytes; a record with an infinite amplitude and
  a frame of 3 bytes.
\<close>

theorem frame_shape_witness:
  "encodable (default_settings ''user'' ''VVI'') \<and>
   (\<exists>f. encode_settings_to_frame (default_settings ''user'' ''VVI'') = Inr f \<and> length f = 15) \<and>
   \<not> encodable ((default_settings ''user'' ''VVI'')\<lparr>ventricular_amplitude := NegInf\<rparr>) \<and>
   (\<exists>e. encode_settings_to_frame
      ((default_settings ''user'' ''VVI'')\<lparr>ventricular_amplitude := NegInf\<rparr>) = Inl e) \<and>
   decode_frame_to_settings ''VVI'' [9, 4, 60] (new_comms 115200 True [])
     = (Inl (ValueError ''Frame must be 15 bytes.''), new_comms 115200 True []) \<and>
   (\<exists>s'. fst (decode_frame_to_settings ''VVI''
      [9, 4, 60, 120, 35, 0, 35, 0, 250, 255, 5, 30, 8, 3, 120] (new_comms 115200 True [])) = Inr s')"
proof -
  have a: "encodable (default_settings ''user'' ''VVI'')"
    by (rule encodable_default)
  have b: "\<not> encodable ((default_settings ''user'' ''VVI'')\<lparr>ventricular_amplitude := NegInf\<rparr>)"
    by (simp add: encodable_def)
  show ?thesis
    using a b
      frame_shape [of "default_settings ''user'' ''VVI''" "[9, 4, 60]" "''VVI''" "new_comms 115200 True []"]
      frame_shape [of "(default_settings ''user'' ''VVI'')\<lparr>ventricular_amplitude := NegInf\<rparr>"
        "[9, 4, 60, 120, 35, 0, 35, 0, 250, 255, 5, 30, 8, 3, 120]" "''VVI''" "new_comms 115200 True []"]
    by simp
qed

text \<open>
  The encoder does not return 15 bytes for every parameter record: with a NaN pulse
  width it raises ValueError.
\<close>

theorem encode_raises_on_nan_pulse_width:
  "encode_settings_to_frame ((default_settings ''user'' ''VVI'')\<lparr>atrial_pulse_width := NaN\<rparr>)
     = Inl (ValueError ''cannot convert float NaN to integer'')"
  by (simp add: encode_settings_to_frame_def raising_def default_settings_def
      py_round_3_5_times_10)

text \<open>
  Claim C5.  Decoding a frame of 15 bytes whose mode byte (offset 1) is 99, or any
  code outside the mode table's 1..10, returns a record with the fallback mode of the
  caller and does not fail; when the activity-threshold byte (offset 13) is 99, or any
  code outside 0..6, the record has the activity threshold "Med".
\<close>

theorem unknown_code_fallback:
  assumes "length frame = 15"
  shows "\<exists>s'. fst (decode_frame_to_settings fallback_mode frame c) = Inr s' \<and>
     (uint (frame ! 1) \<notin> {1..10} \<longrightarrow> mode s' = fallback_mode) \<and>
     (uint (frame ! 1) = 99 \<longrightarrow> mode s' = fallback_mode) \<and>
     (uint (frame ! 13) \<notin> {0..6} \<longrightarrow> activity_threshold s' = ''Med'') \<and>
     (uint (frame ! 13) = 99 \<longrightarrow> activity_threshold s' = ''Med'')"
proof -
  have m: "dict_get MODE_MAP_INV k fallback_mode = fallback_mode" if "k \<notin> {1..10}" for k
    using that by (intro mode_inv_outside) (auto simp: MODE_items_def)
  have a: "dict_get ACTIVITY_THRESH_MAP_INV k ''Med'' = ''Med''" if "k \<notin> {0..6}" for k
    using that by (intro act_inv_outside) (auto simp: ACTIVITY_THRESH_items_def)
  show ?thesis
    unfolding decode_result [OF assms]
    using m [of "uint (frame ! 1)"] a [of "uint (frame ! 13)"]
    by (auto simp: default_settings_def)
qed

text \<open>
  A frame with 99 in both places, decoded with fallback mode "AAI".
\<close>

theorem unknown_code_fallback_witness:
  "\<exists>s'. fst (decode_frame_to_settings ''AAI''
        [9, 99, 60, 120, 35, 0, 35, 0, 250, 255, 5, 30, 8, 99, 120] (new_comms 115200 True []))
     = Inr s' \<and> mode s' = ''AAI'' \<and> activity_threshold s' = ''Med''"
  using unknown_code_fallback
    [of "[9, 99, 60, 120, 35, 0, 35, 0, 250, 255, 5, 30, 8, 99, 120]" "''AAI''"
        "new_comms 115200 True []"]
  by auto

text \<open>
  Claim C6, as amended.  For every frame of 15 bytes the decoder returns a record,
  and the record does not depend on byte 0: replacing byte 0 by any byte, the sync
  constant included, gives the same record.  When byte 0 is the sync constant the
  service is unchanged; when it differs, the only effect is one warning line appended
  to the log, provided the log file can be appended to (otherwise the failure is
  swallowed and no diagnostic is recorded).
\<close>

theorem sync_byte_tolerance:
  assumes "length frame = 15"
  shows "\<exists>s'. fst (decode_frame_to_settings m frame c) = Inr s' \<and>
     (\<forall>b0. fst (decode_frame_to_settings m (frame[0 := b0]) c) = Inr s') \<and>
     (uint (frame ! 0) = SYNC_BYTE \<longrightarrow> snd (decode_frame_to_settings m frame c) = c) \<and>
     (uint (frame ! 0) \<noteq> SYNC_BYTE \<longrightarrow>
        snd (decode_frame_to_settings m frame c) =
          (if log_writable c
           then c\<lparr>uart_log := uart_log c @
                  [TextLine (''[PARAM] Warning: unexpected sync byte ''
                     @ format_hex (uint (frame ! 0)) @ '', expected 0x9.'')]\<rparr>
           else c))"
proof -
  have hex9: "format_hex SYNC_BYTE = ''0x9''"
    by (simp add: format_hex_def SYNC_BYTE_def hex_digit_def)
  have upd: "fst (decode_frame_to_settings m (frame[0 := b0]) c) = fst (decode_frame_to_settings m frame c)" for b0
    using assms by (simp add: decode_result)
  show ?thesis
    using assms
    by (simp add: upd decode_log decode_result log_text_def append_log_def hex9)
qed

text \<open>
  A frame that starts with 0xAA instead of 0x09.
\<close>

theorem sync_byte_tolerance_witness:
  "\<exists>s'. fst (decode_frame_to_settings ''VVI''
        [170, 4, 60, 120, 35, 0, 35, 0, 250, 255, 5, 30, 8, 3, 120] (new_comms 115200 True [])) = Inr s' \<and>
     fst (decode_frame_to_settings ''VVI''
        [9, 4, 60, 120, 35, 0, 35, 0, 250, 255, 5, 30, 8, 3, 120] (new_comms 115200 True [])) = Inr s' \<and>
     uart_log (snd (decode_frame_to_settings ''VVI''
        [170, 4, 60, 120, 35, 0, 35, 0, 250, 255, 5, 30, 8, 3, 120] (new_comms 115200 True [])))
       = [TextLine ''[PARAM] Warning: unexpected sync byte 0xaa, expected 0x9.'']"
proof -
  let ?f = "[170, 4, 60, 120, 35, 0, 35, 0, 250, 255, 5, 30, 8, 3, 120] :: byte list"
  let ?c = "new_comms 115200 True []"
  have len: "length ?f = 15" by simp
  have hex: "format_hex (uint (?f ! 0)) = ''0xaa''"
    by (simp add: format_hex_def hex_digit_def)
  have ns: "uint (?f ! 0) \<noteq> SYNC_BYTE" by (simp add: SYNC_BYTE_def)
  from sync_byte_tolerance [OF len, of "''VVI''" ?c] obtain s' where
    s': "fst (decode_frame_to_settings ''VVI'' ?f ?c) = Inr s'"
    "\<forall>b0. fst (decode_frame_to_settings ''VVI'' (?f[0 := b0]) ?c) = Inr s'"
    "uint (?f ! 0) \<noteq> SYNC_BYTE \<longrightarrow>
        snd (decode_frame_to_settings ''VVI'' ?f ?c) =
          (if log_writable ?c
           then ?c\<lparr>uart_log := uart_log ?c @
                  [TextLine (''[PARAM] Warning: unexpected sync byte ''
                     @ format_hex (uint (?f ! 0)) @ '', expected 0x9.'')]\<rparr>
           else ?c)"
    by blast
  from s'(2) have "fst (decode_frame_to_settings ''VVI'' (?f[0 := 9]) ?c) = Inr s'" by blast
  then have two: "fst (decode_frame_to_settings ''VVI''
        [9, 4, 60, 120, 35, 0, 35, 0, 250, 255, 5, 30, 8, 3, 120] ?c) = Inr s'" by simp
  from s'(3) ns have "uart_log (snd (decode_frame_to_settings ''VVI'' ?f ?c))
       = [TextLine ''[PARAM] Warning: unexpected sync byte 0xaa, expected 0x9.'']"
    unfolding hex by (simp add: new_comms_def)
  with s'(1) two show ?thesis by blast
qed

text \<open>
  With a log file that cannot be appended to, decoding the same frame records no
  diagnostic.
\<close>

theorem sync_warning_lost_when_log_unwritable:
  "uint (([170, 4, 60, 120, 35, 0, 35, 0, 250, 255, 5, 30, 8, 3, 120] :: byte list) ! 0) \<noteq> SYNC_BYTE \<and>
   uart_log (snd (decode_frame_to_settings ''VVI''
        [170, 4, 60, 120, 35, 0, 35, 0, 250, 255, 5, 30, 8, 3, 120] (new_comms 115200 False [])))
     = uart_log (new_comms 115200 False [])"
  by (simp add: decode_log log_text_def append_log_def new_comms_def SYNC_BYTE_def)

section \<open>The transport and the parameter session\<close>

text \<open>
  Claim C7, as amended.  For every payload, \<^verbatim>\<open>write_bytes\<close> on a disconnected
  service returns False and leaves the serial port untouched (no channel I/O), and its
  only effect is the would-have-sent line "TX-NC" appended to the log, provided the log
  file can be appended to.  On a connected service a write that the driver accepts
  returns True, with the payload handed to the port, and a write in which the driver
  raises returns False, with the port untouched and the error logged under the same
  proviso.  No outcome is an exception: the result is always a boolean.
\<close>

theorem mock_write_contract:
  "(\<not> is_connected c \<longrightarrow>
      fst (write_bytes payload c) = False \<and>
      ser (snd (write_bytes payload c)) = ser c \<and>
      snd (write_bytes payload c) =
        (if log_writable c then c\<lparr>uart_log := uart_log c @ [FrameLine ''TX-NC'' payload]\<rparr> else c)) \<and>
   (is_connected c \<and> ser c = Some sp \<and> write_error sp = None \<longrightarrow>
      fst (write_bytes payload c) = True \<and>
      ser (snd (write_bytes payload c)) = Some (sp\<lparr>written := written sp @ [payload]\<rparr>) \<and>
      uart_log (snd (write_bytes payload c)) =
        (if log_writable c then uart_log c @ [FrameLine ''TX'' payload] else uart_log c)) \<and>
   (is_connected c \<and> ser c = Some sp \<and> write_error sp = Some msg \<longrightarrow>
      fst (write_bytes payload c) = False \<and>
      ser (snd (write_bytes payload c)) = ser c \<and>
      uart_log (snd (write_bytes payload c)) =
        (if log_writable c
         then uart_log c @
           [FrameLine ''TX-ERR'' payload,
            TextLine (''[WRITE] Error writing to '' @ port_str c @ '': '' @ msg)]
         else uart_log c))"
proof (intro conjI impI)
  assume "\<not> is_connected c"
  note w = write_bytes_disconnected [OF this, of payload]
  show "fst (write_bytes payload c) = False" "ser (snd (write_bytes payload c)) = ser c"
    "snd (write_bytes payload c) =
        (if log_writable c then c\<lparr>uart_log := uart_log c @ [FrameLine ''TX-NC'' payload]\<rparr> else c)"
    by (simp_all add: w) (simp add: append_log_def)
next
  assume a: "is_connected c \<and> ser c = Some sp \<and> write_error sp = None"
  then have w: "write_bytes payload c =
     (True, append_log (FrameLine ''TX'' payload)
        (c\<lparr>ser := Some (sp\<lparr>written := written sp @ [payload]\<rparr>)\<rparr>))"
    by (simp add: write_bytes_ok)
  show "fst (write_bytes payload c) = True"
    "ser (snd (write_bytes payload c)) = Some (sp\<lparr>written := written sp @ [payload]\<rparr>)"
    "uart_log (snd (write_bytes payload c)) =
        (if log_writable c then uart_log c @ [FrameLine ''TX'' payload] else uart_log c)"
    by (simp_all add: w)
next
  assume a: "is_connected c \<and> ser c = Some sp \<and> write_error sp = Some msg"
  then have w: "write_bytes payload c =
     (False, append_log (TextLine (''[WRITE] Error writing to '' @ port_str c @ '': '' @ msg))
        (append_log (FrameLine ''TX-ERR'' payload) c))"
    by (simp add: write_bytes_error)
  show "fst (write_bytes payload c) = False" "ser (snd (write_bytes payload c)) = ser c"
    "uart_log (snd (write_bytes payload c)) =
        (if log_writable c
         then uart_log c @
           [FrameLine ''TX-ERR'' payload,
            TextLine (''[WRITE] Error writing to '' @ port_str c @ '': '' @ msg)]
         else uart_log c)"
    by (simp_all add: w)
qed

text \<open>
  A fresh service, a connected one, and a connected one whose driver fails.
\<close>

theorem mock_write_contract_witness:
  "\<not> is_connected (new_comms 115200 True []) \<and>
   write_bytes [1, 2, 3] (new_comms 115200 True []) =
     (False, (new_comms 115200 True [])\<lparr>uart_log := [FrameLine ''TX-NC'' [1, 2, 3]]\<rparr>) \<and>
   is_connected (connected_comms (open_port None None)) \<and>
   fst (write_bytes [1, 2, 3] (connected_comms (open_port None None))) = True \<and>
   ser (snd (write_bytes [1, 2, 3] (connected_comms (open_port None None)))) =
     Some ((open_port None None)\<lparr>written := [[1, 2, 3]]\<rparr>) \<and>
   is_connected (connected_comms (open_port (Some ''device lost'') None)) \<and>
   fst (write_bytes [1, 2, 3] (connected_comms (open_port (Some ''device lost'') None))) = False \<and>
   uart_log (snd (write_bytes [1, 2, 3] (connected_comms (open_port (Some ''device lost'') None)))) =
     [TextLine ''Connected to COM3 at 115200 baud.'', FrameLine ''TX-ERR'' [1, 2, 3],
      TextLine ''[WRITE] Error writing to COM3: device lost'']"
proof -
  let ?c0 = "new_comms 115200 True []"
  let ?c1 = "connected_comms (open_port None None)"
  let ?c2 = "connected_comms (open_port (Some ''device lost'') None)"
  have d: "\<not> is_connected ?c0" by (rule connected_comms_facts)
  have c1: "is_connected ?c1 \<and> ser ?c1 = Some (open_port None None) \<and> write_error (open_port None None) = None"
    by (simp add: connected_comms_facts) (simp add: open_port_def)
  have c2: "is_connected ?c2 \<and> ser ?c2 = Some (open_port (Some ''device lost'') None)
      \<and> write_error (open_port (Some ''device lost'') None) = Some ''device lost''"
    by (simp add: connected_comms_facts) (simp add: open_port_def)
  have r0: "write_bytes [1, 2, 3] ?c0 = (False, ?c0\<lparr>uart_log := [FrameLine ''TX-NC'' [1, 2, 3]]\<rparr>)"
    using mock_write_contract [where c = ?c0 and payload = "[1, 2, 3]"] d
    by (simp add: prod_eq_iff) (simp add: new_comms_def)
  have r1: "fst (write_bytes [1, 2, 3] ?c1) = True \<and>
      ser (snd (write_bytes [1, 2, 3] ?c1)) = Some ((open_port None None)\<lparr>written := [[1, 2, 3]]\<rparr>)"
    using mock_write_contract [where c = ?c1 and sp = "open_port None None" and payload = "[1, 2, 3]"] c1
    by (simp add: open_port_def)
  have r2: "fst (write_bytes [1, 2, 3] ?c2) = False \<and>
      uart_log (snd (write_bytes [1, 2, 3] ?c2)) =
        [TextLine ''Connected to COM3 at 115200 baud.'', FrameLine ''TX-ERR'' [1, 2, 3],
         TextLine ''[WRITE] Error writing to COM3: device lost'']"
    using mock_write_contract [where c = ?c2 and sp = "open_port (Some ''device lost'') None"
        and payload = "[1, 2, 3]" and msg = "''device lost''"] c2
    by (simp add: connected_comms_def port_str_def)
  from d c1 c2 r0 r1 r2 show ?thesis by blast
qed

text \<open>
  With a log file that cannot be appended to, the disconnected write returns False
  and records nothing.
\<close>

theorem mock_write_not_logged_when_log_unwritable:
  "\<not> is_connected (new_comms 115200 False []) \<and>
   fst (write_bytes [1, 2, 3] (new_comms 115200 False [])) = False \<and>
   uart_log (snd (write_bytes [1, 2, 3] (new_comms 115200 False []))) =
     uart_log (new_comms 115200 False [])"
  by (simp add: connected_comms_facts write_bytes_disconnected) (simp add: new_comms_def)




section \<open>Further properties of the encoder\<close>

text \<open>
  Claim C9.  The encoder reads only the fourteen transmitted fields: two parameter
  records that agree on mode, lower and upper rate limit, both amplitudes, both pulse
  widths, both refractory periods, recovery time, reaction time, response factor,
  activity threshold and maximum sensor rate have the same outcome of encoding,
  whatever their other fields are: the same frame of 15 bytes whenever the rounded
  floats are finite, and otherwise the same exception.
\<close>

theorem encode_only_wire_subset:
  assumes "mode s1 = mode s2"
    and "lower_rate_limit s1 = lower_rate_limit s2"
    and "upper_rate_limit s1 = upper_rate_limit s2"
    and "atrial_amplitude s1 = atrial_amplitude s2"
    and "atrial_pulse_width s1 = atrial_pulse_width s2"
    and "ventricular_amplitude s1 = ventricular_amplitude s2"
    and "ventricular_pulse_width s1 = ventricular_pulse_width s2"
    and "atrial_refractory_period s1 = atrial_refractory_period s2"
    and "ventricular_refractory_period s1 = ventricular_refractory_period s2"
    and "recovery_time s1 = recovery_time s2"
    and "reaction_time s1 = reaction_time s2"
    and "response_factor s1 = response_factor s2"
    and "activity_threshold s1 = activity_threshold s2"
    and "maximum_sensor_rate s1 = maximum_sensor_rate s2"
  shows "encode_settings_to_frame s1 = encode_settings_to_frame s2 \<and>
    (\<forall>f. encode_settings_to_frame s1 = Inr f \<longrightarrow> length f = 15) \<and>
    (encodable s1 \<longrightarrow>
       (\<exists>f. encode_settings_to_frame s1 = Inr f \<and> encode_settings_to_frame s2 = Inr f \<and>
            length f = 15))"
proof (intro conjI impI)
  show same: "encode_settings_to_frame s1 = encode_settings_to_frame s2"
    unfolding encode_settings_to_frame_def assms ..
  show "\<forall>f. encode_settings_to_frame s1 = Inr f \<longrightarrow> length f = 15"
    by (simp add: encode_length)
  assume "encodable s1"
  then obtain aa va apw vpw where r:
    "py_round (times_10 (atrial_amplitude s1)) = Inr aa"
    "py_round (times_10 (ventricular_amplitude s1)) = Inr va"
    "py_round (atrial_pulse_width s1) = Inr apw"
    "py_round (ventricular_pulse_width s1) = Inr vpw"
    by (rule encodable_rounds)
  from encode_Inr [OF r] obtain f where f: "encode_settings_to_frame s1 = Inr f" by blast
  from f same have f2: "encode_settings_to_frame s2 = Inr f" by simp
  from f f2 encode_length [OF f]
  show "\<exists>f. encode_settings_to_frame s1 = Inr f \<and> encode_settings_to_frame s2 = Inr f \<and>
            length f = 15"
    by blast
qed

text \<open>
  Two records with different owners, sensitivities, PVARP, blanking and ATR setting.
\<close>

theorem encode_only_wire_subset_witness:
  "encodable (default_settings ''alice'' ''DDD'') \<and>
   (\<exists>f. encode_settings_to_frame (default_settings ''alice'' ''DDD'') = Inr f \<and>
        encode_settings_to_frame
          ((default_settings ''bob'' ''DDD'')
             \<lparr>atrial_sensitivity := NaN, pvarp := 400, atr_mode_on := True,
              ventricular_blanking := 60\<rparr>) = Inr f \<and>
        length f = 15)"
proof -
  let ?a = "default_settings ''alice'' ''DDD''"
  let ?b = "(default_settings ''bob'' ''DDD'')
             \<lparr>atrial_sensitivity := NaN, pvarp := 400, atr_mode_on := True,
              ventricular_blanking := 60\<rparr>"
  have h: "encodable ?a" by (rule encodable_default)
  have "encode_settings_to_frame ?a = encode_settings_to_frame ?b \<and>
    (\<forall>f. encode_settings_to_frame ?a = Inr f \<longrightarrow> length f = 15) \<and>
    (encodable ?a \<longrightarrow>
       (\<exists>f. encode_settings_to_frame ?a = Inr f \<and> encode_settings_to_frame ?b = Inr f \<and>
            length f = 15))"
    by (rule encode_only_wire_subset) (simp_all add: default_settings_def)
  with h show ?thesis by blast
qed

text \<open>
  Claim C10.  Every frame the encoder returns has 15 bytes, the sync constant 9 at
  offset 0, a mode code between 0 and 10 at offset 1, which is 0 exactly when the mode
  string is not in the mode table, and an activity-threshold code between 0 and 6 at
  offset 13, which is 3 (the code of "Med") when the string is not in the table.  The
  encoder returns a frame for every record whose rounded floats are finite.
\<close>

theorem encoded_frame_ranges:
  "(encodable s \<longrightarrow> (\<exists>f. encode_settings_to_frame s = Inr f)) \<and>
   (\<forall>f. encode_settings_to_frame s = Inr f \<longrightarrow>
      length f = 15 \<and>
      uint (f ! 0) = SYNC_BYTE \<and> SYNC_BYTE = 9 \<and>
      0 \<le> uint (f ! 1) \<and> uint (f ! 1) \<le> 10 \<and>
      (uint (f ! 1) = 0 \<longleftrightarrow> MODE_MAP (mode s) = None) \<and>
      0 \<le> uint (f ! 13) \<and> uint (f ! 13) \<le> 6 \<and>
      (ACTIVITY_THRESH_MAP (activity_threshold s) = None \<longrightarrow> uint (f ! 13) = 3))"
proof (intro conjI allI impI)
  assume "encodable s"
  then obtain aa va apw vpw where r:
    "py_round (times_10 (atrial_amplitude s)) = Inr aa"
    "py_round (times_10 (ventricular_amplitude s)) = Inr va"
    "py_round (atrial_pulse_width s) = Inr apw"
    "py_round (ventricular_pulse_width s) = Inr vpw"
    by (rule encodable_rounds)
  from encode_Inr [OF r] show "\<exists>f. encode_settings_to_frame s = Inr f" by blast
next
  fix f assume f: "encode_settings_to_frame s = Inr f"
  obtain aa va apw vpw where r:
    "py_round (times_10 (atrial_amplitude s)) = Inr aa"
    "py_round (times_10 (ventricular_amplitude s)) = Inr va"
    "py_round (atrial_pulse_width s) = Inr apw"
    "py_round (ventricular_pulse_width s) = Inr vpw"
    using encodable_rounds [OF encode_Inr_encodable [OF f]] by blast
  have fg: "f = map word_of_int
       [9, dict_get MODE_MAP (mode s) 0,
        max 0 (min 255 (lower_rate_limit s)),
        max 0 (min 255 (upper_rate_limit s)),
        max 0 (min 255 aa),
        max 0 (min 255 apw),
        max 0 (min 255 va),
        max 0 (min 255 vpw),
        max 0 (min 255 (atrial_refractory_period s)),
        max 0 (min 255 (ventricular_refractory_period s)),
        max 0 (min 255 (recovery_time s)),
        max 0 (min 255 (reaction_time s)),
        max 0 (min 255 (response_factor s)),
        dict_get ACTIVITY_THRESH_MAP (activity_threshold s) 3,
        max 0 (min 255 (maximum_sensor_rate s))]"
    using encode_Inr [OF r] f by simp
  have len: "length f = 15"
    using f by (rule encode_length)
  have b0: "uint (f ! 0) = 9"
    by (simp add: fg)
  have b1: "uint (f ! 1) = dict_get MODE_MAP (mode s) 0"
    using mode_code_range [of "mode s"] by (simp add: fg uint_byte_of_int)
  have b13: "uint (f ! 13) = dict_get ACTIVITY_THRESH_MAP (activity_threshold s) 3"
    using act_code_range [of "activity_threshold s"] by (simp add: fg uint_byte_of_int)
  show "length f = 15" by (rule len)
  show "uint (f ! 0) = SYNC_BYTE" by (simp add: b0 SYNC_BYTE_def)
  show "SYNC_BYTE = 9" by (simp add: SYNC_BYTE_def)
  show "0 \<le> uint (f ! 1)" "uint (f ! 1) \<le> 10"
    unfolding b1 by (rule mode_code_range)+
  show "0 \<le> uint (f ! 13)" "uint (f ! 13) \<le> 6"
    unfolding b13 by (rule act_code_range)+
  show "(uint (f ! 1) = 0) = (MODE_MAP (mode s) = None)"
    unfolding b1 by (simp add: dict_get_def MODE_MAP_def MODE_items_def)
  show "uint (f ! 13) = 3" if "ACTIVITY_THRESH_MAP (activity_threshold s) = None"
    unfolding b13 using that by (simp add: dict_get_def)
qed

text \<open>
  A record whose mode and activity threshold are both unknown strings.
\<close>

theorem encoded_frame_ranges_witness:
  "encodable ((default_settings ''user'' ''XYZ'')\<lparr>activity_threshold := ''Extreme''\<rparr>) \<and>
   (\<exists>f. encode_settings_to_frame
          ((default_settings ''user'' ''XYZ'')\<lparr>activity_threshold := ''Extreme''\<rparr>) = Inr f \<and>
        length f = 15 \<and> uint (f ! 0) = 9 \<and> uint (f ! 1) = 0 \<and> uint (f ! 13) = 3)"
proof -
  let ?s = "(default_settings ''user'' ''XYZ'')\<lparr>activity_threshold := ''Extreme''\<rparr>"
  have enc: "encodable ?s"
    using encodable_default [of "''user''" "''XYZ''"] by (simp add: encodable_def default_settings_def)
  have m: "MODE_MAP (mode ?s) = None"
    by (simp add: default_settings_def MODE_MAP_def MODE_items_def)
  have a: "ACTIVITY_THRESH_MAP (activity_threshold ?s) = None"
    by (simp add: ACTIVITY_THRESH_MAP_def ACTIVITY_THRESH_items_def)
  from encoded_frame_ranges [of ?s] enc obtain f where f: "encode_settings_to_frame ?s = Inr f"
    by blast
  with encoded_frame_ranges [of ?s] m a have
    "length f = 15 \<and> uint (f ! 0) = 9 \<and> uint (f ! 1) = 0 \<and> uint (f ! 13) = 3"
    by simp
  with enc f show ?thesis by blast
qed

end
